theory Spec2Isabelle
  imports Main "HOL-Library.Sublist"
begin

section \<open>Python strings\<close>

text \<open>
  A Python \<open>str\<close> is modelled as a \<open>string\<close> whose characters are the code points
  0..255; \<open>length\<close> counts characters, as Python's \<open>len\<close> does. The functions below
  are the library operations that \<open>app_simple.py\<close> calls on strings, written out for
  that range.
\<close>

definition NL :: string where
  "NL = [CHR 0x0A]"

definition QUOTE :: string where
  "QUOTE = [CHR 0x22]"

definition APOS :: string where
  "APOS = [CHR 0x27]"

text \<open>\<open>str.isspace\<close> on one character: the ASCII white space of CPython
  (9..13, 28..32) and, above 127, NEL (133) and the no-break space (160).\<close>

definition isspace :: "char \<Rightarrow> bool" where
  "isspace c = ((of_char c :: nat) \<in> {9, 10, 11, 12, 13, 28, 29, 30, 31, 32, 133, 160})"

text \<open>\<open>s.strip()\<close>: white space removed at both ends.\<close>

definition lstrip :: "string \<Rightarrow> string" where
  "lstrip s = dropWhile isspace s"

definition rstrip :: "string \<Rightarrow> string" where
  "rstrip s = rev (dropWhile isspace (rev s))"

definition strip :: "string \<Rightarrow> string" where
  "strip s = rstrip (lstrip s)"

text \<open>\<open>s.lower()\<close>: A..Z and the upper-case letters of the range 192..222
  (without the multiplication sign 215) move up by 32.\<close>

definition lower_char :: "char \<Rightarrow> char" where
  "lower_char c =
     (let n = (of_char c :: nat)
      in if (65 \<le> n \<and> n \<le> 90) \<or> (192 \<le> n \<and> n \<le> 222 \<and> n \<noteq> 215)
         then char_of (n + 32) else c)"

definition lower :: "string \<Rightarrow> string" where
  "lower s = map lower_char s"

definition endswith :: "string \<Rightarrow> string \<Rightarrow> bool" where
  "endswith s suf = (length suf \<le> length s \<and> drop (length s - length suf) s = suf)"

text \<open>\<open>sep.join(xs)\<close>.\<close>

fun join :: "string \<Rightarrow> string list \<Rightarrow> string" where
  "join sep [] = []"
| "join sep [x] = x"
| "join sep (x # y # ys) = x @ sep @ join sep (y # ys)"

text \<open>\<open>s[:stop]\<close> for an integer \<open>stop\<close>: a negative \<open>stop\<close> counts from the end,
  and the bound is clipped to the length.\<close>

definition slice_to :: "'a list \<Rightarrow> int \<Rightarrow> 'a list" where
  "slice_to s stop =
     (let n = int (length s);
          j = (if stop < 0 then max (stop + n) 0 else min stop n)
      in take (nat j) s)"

text \<open>\<open>s.rfind(c)\<close> for a single character: the last index of \<open>c\<close>, or \<open>-1\<close>.\<close>

fun rfind_from :: "char \<Rightarrow> string \<Rightarrow> nat \<Rightarrow> int \<Rightarrow> int" where
  "rfind_from c [] i found = found"
| "rfind_from c (x # xs) i found = rfind_from c xs (Suc i) (if x = c then int i else found)"

definition rfind :: "string \<Rightarrow> char \<Rightarrow> int" where
  "rfind s c = rfind_from c s 0 (- 1)"

text \<open>
  \<open>os.path.splitext\<close> (\<open>posixpath\<close>, through \<open>genericpath._splitext\<close> with
  \<open>sep = '/'\<close> and \<open>extsep = '.'\<close>): the extension starts at the last dot of the last
  path component, unless that component has only dots before it.
  \<^verbatim>\<open>
    sepIndex = p.rfind(sep)
    dotIndex = p.rfind(extsep)
    if dotIndex > sepIndex:
        filenameIndex = sepIndex + 1
        while filenameIndex < dotIndex:
            if p[filenameIndex:filenameIndex+1] != extsep:
                return p[:dotIndex], p[dotIndex:]
            filenameIndex += 1
    return p, p[:0]
  \<close>
\<close>

function splitext_loop :: "string \<Rightarrow> nat \<Rightarrow> nat \<Rightarrow> string \<times> string" where
  "splitext_loop p filenameIndex dotIndex =
     (if filenameIndex < dotIndex
      then (if take 1 (drop filenameIndex p) \<noteq> ''.''
            then (take dotIndex p, drop dotIndex p)
            else splitext_loop p (Suc filenameIndex) dotIndex)
      else (p, []))"
  by pat_completeness auto
termination
  by (relation "measure (\<lambda>(p, filenameIndex, dotIndex). dotIndex - filenameIndex)") auto

definition splitext :: "string \<Rightarrow> string \<times> string" where
  "splitext p =
     (let sepIndex = rfind p (CHR ''/'');
          dotIndex = rfind p (CHR ''.'')
      in if dotIndex > sepIndex
         then splitext_loop p (nat (sepIndex + 1)) (nat dotIndex)
         else (p, []))"

section \<open>Data model of \<open>app_simple.py\<close>\<close>

text \<open>
  What a handler raises: \<open>HTTPException(status_code, detail)\<close>, or the
  \<open>RequestValidationError\<close> that the framework raises when the body does not satisfy
  \<open>QueryRequest\<close> (answered with status 422).
\<close>

datatype failure =
  HTTPException (status_code: nat) (detail: string)
| RequestValidationError

fun status_of :: "failure \<Rightarrow> nat" where
  "status_of (HTTPException c d) = c"
| "status_of RequestValidationError = 422"

record QueryRequest =
  documents :: string
  questions :: "string list"

record model_info =
  llm :: string
  text_length :: nat

record QueryResponse =
  answers :: "string list"
  document_url :: string
  total_questions :: nat
  processing_timestamp :: string
  model_info :: model_info

record FileUploadResponse =
  upload_answers :: "string list"
  upload_total_questions :: nat
  upload_processing_timestamp :: string
  file_size :: nat
  upload_model_info :: model_info
  filename :: string

text \<open>
  The value that \<open>process_with_gemini\<close> iterates over. The URL endpoint passes a
  validated \<open>List[str]\<close>. The upload endpoint passes whatever \<open>json.loads\<close> returned:
  a value that cannot be iterated (a number, a boolean, \<open>null\<close>; the argument is the
  message of the \<open>TypeError\<close>), or the items that iteration yields, each as the
  f-string renders it (for an array of strings, the strings themselves).
\<close>

datatype questions_value =
  NotIterable string
| Items "string list"

text \<open>
  The outcome of \<open>json.loads(questions)\<close> on the form field of the upload: it raises
  \<open>JSONDecodeError\<close>, it raises another exception (a \<open>RecursionError\<close> on deeply nested
  brackets, the \<open>ValueError\<close> of the limit on the digits of an integer; the argument is
  the text of the exception), or it returns a value.
\<close>

datatype json_loads_result =
  JSONDecodeError
| Raised string
| Decoded questions_value

section \<open>Effects\<close>

text \<open>
  The calls that leave the process, in the order they are made: the download, the
  creation and the removal of the temporary file, the opening of the file by a parser
  (the start of an extraction) and the calls of the generative model.
\<close>

datatype event =
  HttpGet string
| TempCreate string
| PdfOpen string
| DocxOpen string
| Generate nat string
| Unlink string

text \<open>The state a request runs in: the files that exist, with their content, and
  the log of the calls made so far.\<close>

record world =
  files :: "string \<rightharpoonup> string"
  trace :: "event list"

definition emit :: "event \<Rightarrow> world \<Rightarrow> world" where
  "emit e w = w\<lparr>trace := trace w @ [e]\<rparr>"

text \<open>
  The collaborators outside the repository. Each one either raises (\<open>Inl\<close>, with the
  text of the exception) or returns (\<open>Inr\<close>):
  \<^item> \<open>http_get url\<close>: \<open>requests.get\<close> followed by \<open>raise_for_status\<close>, giving
    \<open>response.content\<close>;
  \<^item> \<open>tmp_stem\<close>: directory, prefix and random part of the name that
    \<open>tempfile.NamedTemporaryFile\<close> chooses; the suffix is appended to it;
  \<^item> \<open>tmp_write name content\<close>: the body of the \<open>with\<close> block that fills the new
    file, \<open>tmp_file.write(content)\<close> and, on the upload route, the
    \<open>await file.read()\<close> before it; \<open>Some e\<close> when one of them raises \<open>e\<close> (a full
    disk, for example), \<open>None\<close> when the content has been written;
  \<^item> \<open>pdf_reader content\<close>: \<open>PyPDF2.PdfReader\<close> on a file with that content, giving
    for each page what \<open>page.extract_text()\<close> does;
  \<^item> \<open>docx_document content\<close>: \<open>docx.Document\<close>, giving the text of each paragraph;
  \<^item> \<open>generate_content i prompt\<close>: the \<open>i\<close>-th call (from 0) of
    \<open>model.generate_content\<close> in a request, giving \<open>response.text\<close>;
  \<^item> \<open>now\<close>: \<open>datetime.now().isoformat()\<close>.
\<close>

record env =
  http_get :: "string \<Rightarrow> string + string"
  tmp_stem :: string
  tmp_write :: "string \<Rightarrow> string \<Rightarrow> string option"
  pdf_reader :: "string \<Rightarrow> string + (string + string) list"
  docx_document :: "string \<Rightarrow> string + string list"
  generate_content :: "nat \<Rightarrow> string \<Rightarrow> string + string"
  now :: string

text \<open>
  The block \<open>with tempfile.NamedTemporaryFile(delete=False, suffix=sfx) as tmp_file\<close>
  of both routes. Opening creates the file, empty. When the body of the block raises,
  the exception leaves the block and the file stays, since \<open>delete=False\<close>; what had
  reached the file by then is not modelled. Otherwise the file holds the content and
  the block gives its name.
\<close>

definition NamedTemporaryFile ::
  "env \<Rightarrow> string \<Rightarrow> string \<Rightarrow> world \<Rightarrow> (string + string) \<times> world" where
  "NamedTemporaryFile E sfx content w =
     (let name = tmp_stem E @ sfx;
          w1 = emit (TempCreate name) (w\<lparr>files := (files w)(name \<mapsto> [])\<rparr>)
      in case tmp_write E name content of
           Some e \<Rightarrow> (Inl e, w1)
         | None \<Rightarrow> (Inr name, w1\<lparr>files := (files w1)(name \<mapsto> content)\<rparr>))"

text \<open>The \<open>finally\<close> block of both handlers:
  \<open>if os.path.exists(temp_file): os.unlink(temp_file)\<close>.\<close>

definition cleanup :: "string \<Rightarrow> world \<Rightarrow> world" where
  "cleanup temp_file w =
     (if files w temp_file \<noteq> None
      then emit (Unlink temp_file) (w\<lparr>files := (files w)(temp_file := None)\<rparr>)
      else w)"

section \<open>Helper functions\<close>

text \<open>The page loop of \<open>extract_text_from_pdf\<close>:
  \<open>text += page.extract_text() + "\n"\<close>.\<close>

fun pdf_pages :: "(string + string) list \<Rightarrow> string \<Rightarrow> string + string" where
  "pdf_pages [] text = Inr text"
| "pdf_pages (page # pages) text =
     (case page of
        Inl e \<Rightarrow> Inl e
      | Inr t \<Rightarrow> pdf_pages pages (text @ t @ NL))"

definition extract_text_from_pdf :: "env \<Rightarrow> string \<Rightarrow> world \<Rightarrow> (failure + string) \<times> world" where
  "extract_text_from_pdf E file_path w =
     (let w1 = emit (PdfOpen file_path) w;
          opened = (case files w file_path of
                      None \<Rightarrow> Inl (''[Errno 2] No such file or directory: '' @ APOS @ file_path @ APOS)
                    | Some content \<Rightarrow>
                        (case pdf_reader E content of
                           Inl e \<Rightarrow> Inl e
                         | Inr pages \<Rightarrow> pdf_pages pages []))
      in case opened of
           Inl e \<Rightarrow> (Inl (HTTPException 500 (''Error processing PDF: '' @ e)), w1)
         | Inr text \<Rightarrow> (Inr text, w1))"

definition extract_text_from_docx :: "env \<Rightarrow> string \<Rightarrow> world \<Rightarrow> (failure + string) \<times> world" where
  "extract_text_from_docx E file_path w =
     (let w1 = emit (DocxOpen file_path) w;
          opened = (case files w file_path of
                      None \<Rightarrow> Inl (''Package not found at '' @ APOS @ file_path @ APOS)
                    | Some content \<Rightarrow>
                        (case docx_document E content of
                           Inl e \<Rightarrow> Inl e
                         | Inr paragraphs \<Rightarrow> Inr (join NL paragraphs)))
      in case opened of
           Inl e \<Rightarrow> (Inl (HTTPException 500 (''Error processing DOCX: '' @ e)), w1)
         | Inr text \<Rightarrow> (Inr text, w1))"

text \<open>\<open>download_document\<close>: every exception of the \<open>try\<close> block, of the request or of
  the block that writes the temporary file, becomes a 400.\<close>

definition download_document :: "env \<Rightarrow> string \<Rightarrow> world \<Rightarrow> (failure + string) \<times> world" where
  "download_document E url w =
     (let w1 = emit (HttpGet url) w
      in case http_get E url of
           Inl e \<Rightarrow> (Inl (HTTPException 400 (''Error downloading document: '' @ e)), w1)
         | Inr content \<Rightarrow>
             (case NamedTemporaryFile E ''.pdf'' content w1 of
                (Inl e, w2) \<Rightarrow> (Inl (HTTPException 400 (''Error downloading document: '' @ e)), w2)
              | (Inr name, w2) \<Rightarrow> (Inr name, w2)))"

text \<open>The character budget of the prompt, \<open>text[:8000]\<close>.\<close>

definition budget :: "string \<Rightarrow> nat \<Rightarrow> string" where
  "budget text C = slice_to text (int C)"

definition FALLBACK :: string where
  "FALLBACK = ''Information not found in the document.''"

definition INDENT :: string where
  "INDENT = replicate 12 (CHR '' '')"

text \<open>The f-string of \<open>process_with_gemini\<close>, line by line.\<close>

definition prompt :: "string \<Rightarrow> string \<Rightarrow> string" where
  "prompt text question =
     NL
     @ INDENT @ ''Document Text:'' @ NL
     @ INDENT @ budget text 8000 @ ''  # Limit text to avoid token limits'' @ NL
     @ INDENT @ NL
     @ INDENT @ ''Question: '' @ question @ NL
     @ INDENT @ NL
     @ INDENT @ ''Please provide a clear, concise answer based on the document content. If the answer is not found in the document, say ''
       @ QUOTE @ FALLBACK @ QUOTE @ NL
     @ INDENT"

text \<open>The \<open>for\<close> loop of \<open>process_with_gemini\<close>; \<open>i\<close> counts the calls made and
  \<open>acc\<close> is the list \<open>answers\<close>. An exception leaves the loop at once.\<close>

fun gemini_loop ::
  "env \<Rightarrow> string \<Rightarrow> string list \<Rightarrow> nat \<Rightarrow> string list \<Rightarrow> world \<Rightarrow> (string + string list) \<times> world" where
  "gemini_loop E text [] i acc w = (Inr acc, w)"
| "gemini_loop E text (question # rest) i acc w =
     (let p = prompt text question;
          w1 = emit (Generate i p) w
      in case generate_content E i p of
           Inl e \<Rightarrow> (Inl e, w1)
         | Inr response_text \<Rightarrow> gemini_loop E text rest (Suc i) (acc @ [strip response_text]) w1)"

definition process_with_gemini ::
  "env \<Rightarrow> string \<Rightarrow> questions_value \<Rightarrow> world \<Rightarrow> (failure + string list) \<times> world" where
  "process_with_gemini E text qv w =
     (case qv of
        NotIterable e \<Rightarrow> (Inl (HTTPException 500 (''Error processing with AI: '' @ e)), w)
      | Items qs \<Rightarrow>
          (case gemini_loop E text qs 0 [] w of
             (Inl e, w1) \<Rightarrow> (Inl (HTTPException 500 (''Error processing with AI: '' @ e)), w1)
           | (Inr acc, w1) \<Rightarrow> (Inr acc, w1)))"

section \<open>API routes\<close>

text \<open>Both routes are modelled for a request whose bearer token \<open>verify_token\<close> has
  accepted.\<close>

text \<open>\<open>QueryRequest\<close>: \<open>questions\<close> is declared with \<open>min_items=1\<close>, so the framework
  rejects a body with an empty list before the handler runs.\<close>

definition QueryRequest_validate :: "string \<Rightarrow> string list \<Rightarrow> failure + QueryRequest" where
  "QueryRequest_validate d qs =
     (if length qs < 1 then Inl RequestValidationError
      else Inr \<lparr>documents = d, questions = qs\<rparr>)"

text \<open>The inner \<open>try\<close> block of \<open>process_document_url\<close>. Both branches of the test on
  the name of the temporary file call the PDF extractor.\<close>

definition process_document_url_try ::
  "env \<Rightarrow> QueryRequest \<Rightarrow> string \<Rightarrow> world \<Rightarrow> (failure + QueryResponse) \<times> world" where
  "process_document_url_try E request temp_file w =
     (case (if endswith (lower temp_file) ''.pdf''
            then extract_text_from_pdf E temp_file w
            else extract_text_from_pdf E temp_file w) of
        (Inl e, w1) \<Rightarrow> (Inl e, w1)
      | (Inr text, w1) \<Rightarrow>
          (case process_with_gemini E text (Items (questions request)) w1 of
             (Inl e, w2) \<Rightarrow> (Inl e, w2)
           | (Inr ans, w2) \<Rightarrow>
               (Inr \<lparr>answers = ans,
                     document_url = documents request,
                     total_questions = length (questions request),
                     processing_timestamp = now E,
                     model_info = \<lparr>llm = ''gemini-pro'', text_length = length text\<rparr>\<rparr>, w2)))"

text \<open>\<open>process_document_url\<close>: an \<open>HTTPException\<close> of the download is raised again;
  after a download the \<open>finally\<close> block runs whatever the inner block did.\<close>

definition process_document_url ::
  "env \<Rightarrow> QueryRequest \<Rightarrow> world \<Rightarrow> (failure + QueryResponse) \<times> world" where
  "process_document_url E request w =
     (case download_document E (documents request) w of
        (Inl e, w1) \<Rightarrow> (Inl e, w1)
      | (Inr temp_file, w1) \<Rightarrow>
          (let (r, w2) = process_document_url_try E request temp_file w1
           in (r, cleanup temp_file w2)))"

text \<open>The route \<open>POST /hackrx/run\<close>: validation of the body, then the handler.\<close>

definition hackrx_run ::
  "env \<Rightarrow> string \<Rightarrow> string list \<Rightarrow> world \<Rightarrow> (failure + QueryResponse) \<times> world" where
  "hackrx_run E d qs w =
     (case QueryRequest_validate d qs of
        Inl e \<Rightarrow> (Inl e, w)
      | Inr request \<Rightarrow> process_document_url E request w)"

definition allowed_extensions :: "string list" where
  "allowed_extensions = [''.pdf'', ''.doc'', ''.docx'']"

text \<open>The inner \<open>try\<close> block of \<open>process_file_upload\<close>. \<open>len(questions_list)\<close> raises a
  \<open>TypeError\<close> on a value without a length, which the outer handler turns into a 500.\<close>

definition process_file_upload_try ::
  "env \<Rightarrow> string \<Rightarrow> string \<Rightarrow> string \<Rightarrow> questions_value \<Rightarrow> string \<Rightarrow> world
     \<Rightarrow> (failure + FileUploadResponse) \<times> world" where
  "process_file_upload_try E file_name file_ext content questions_list temp_file_path w =
     (case (if file_ext = ''.pdf'' then extract_text_from_pdf E temp_file_path w
            else if file_ext \<in> set [''.doc'', ''.docx''] then extract_text_from_docx E temp_file_path w
            else (Inl (HTTPException 400 ''Unsupported file format''), w)) of
        (Inl e, w1) \<Rightarrow> (Inl e, w1)
      | (Inr text, w1) \<Rightarrow>
          (case process_with_gemini E text questions_list w1 of
             (Inl e, w2) \<Rightarrow> (Inl e, w2)
           | (Inr ans, w2) \<Rightarrow>
               (case questions_list of
                  NotIterable e \<Rightarrow> (Inl (HTTPException 500 (''Internal server error: '' @ e)), w2)
                | Items qs \<Rightarrow>
                    (Inr \<lparr>upload_answers = ans,
                          upload_total_questions = length qs,
                          upload_processing_timestamp = now E,
                          file_size = length content,
                          upload_model_info = \<lparr>llm = ''gemini-pro'', text_length = length text\<rparr>,
                          filename = file_name\<rparr>, w2))))"

text \<open>\<open>process_file_upload\<close> (the route \<open>POST /hackrx/upload\<close>): \<open>json.loads\<close>, the
  test of the extension, the temporary file, the inner block and its \<open>finally\<close>. The
  block that writes the temporary file is outside the inner \<open>try\<close>: an exception of it
  reaches \<open>except Exception\<close> of the handler, as does an exception of \<open>json.loads\<close>
  that is not a \<open>JSONDecodeError\<close>.\<close>

definition process_file_upload ::
  "env \<Rightarrow> string \<Rightarrow> string \<Rightarrow> json_loads_result \<Rightarrow> world
     \<Rightarrow> (failure + FileUploadResponse) \<times> world" where
  "process_file_upload E file_name content questions_json w =
     (case questions_json of
        JSONDecodeError \<Rightarrow> (Inl (HTTPException 400 ''Invalid JSON format for questions''), w)
      | Raised e \<Rightarrow> (Inl (HTTPException 500 (''Internal server error: '' @ e)), w)
      | Decoded questions_list \<Rightarrow>
          (let file_ext = lower (snd (splitext file_name))
           in if file_ext \<notin> set allowed_extensions
              then (Inl (HTTPException 400 (''Unsupported file type: '' @ file_ext)), w)
              else (case NamedTemporaryFile E file_ext content w of
                      (Inl e, w1) \<Rightarrow> (Inl (HTTPException 500 (''Internal server error: '' @ e)), w1)
                    | (Inr temp_file_path, w1) \<Rightarrow>
                        (let (r, w2) = process_file_upload_try E file_name file_ext content
                                         questions_list temp_file_path w1
                         in (r, cleanup temp_file_path w2)))))"

section \<open>Properties of a run and test data\<close>

text \<open>The events that \<open>w'\<close> has logged after \<open>w\<close>.\<close>

definition new_events :: "world \<Rightarrow> world \<Rightarrow> event list" where
  "new_events w w' = drop (length (trace w)) (trace w')"

text \<open>A list of events that holds calls of the model only.\<close>

definition model_calls_only :: "event list \<Rightarrow> bool" where
  "model_calls_only evs = (\<forall>ev \<in> set evs. \<exists>k p. ev = Generate k p)"

text \<open>
  Fail-fast: when one of the logged calls of the model raised \<open>e\<close>, the result is the
  500 made from \<open>e\<close> and no call with a higher number was made.
\<close>

definition fail_fast :: "env \<Rightarrow> event list \<Rightarrow> failure + 'a \<Rightarrow> bool" where
  "fail_fast E evs r =
     (\<forall>k p e. Generate k p \<in> set evs \<longrightarrow> generate_content E k p = Inl e \<longrightarrow>
        r = Inl (HTTPException 500 (''Error processing with AI: '' @ e))
        \<and> (\<forall>j p'. Generate j p' \<in> set evs \<longrightarrow> j \<le> k))"

text \<open>A world without files and with an empty log.\<close>

definition w0 :: world where
  "w0 = \<lparr>files = Map.empty, trace = []\<rparr>"

text \<open>
  Collaborators for the examples: two URLs serve a PDF, one serves a Windows program,
  every other download fails; every write to a temporary file succeeds; the PDF parser
  accepts one content and fails on the second page of another, the DOCX parser accepts
  one content; the model answers every prompt with the same text, surrounded by white
  space.
\<close>

definition env_ok :: env where
  "env_ok =
     \<lparr>http_get = (\<lambda>url. if url = ''https://example.org/policy.pdf'' then Inr ''%PDF-policy''
                        else if url = ''https://example.org/scan.pdf'' then Inr ''%PDF-scan''
                        else if url = ''https://example.org/setup.exe'' then Inr ''MZ-setup''
                        else Inl ''404 Client Error: Not Found''),
      tmp_stem = ''/tmp/tmpk3x9'',
      tmp_write = (\<lambda>name content. None),
      pdf_reader = (\<lambda>content. if content = ''%PDF-policy''
                               then Inr [Inr ''Grace period is 30 days.'']
                               else if content = ''%PDF-scan''
                               then Inr [Inr ''Page one.'', Inl ''could not decode page 2'',
                                         Inr ''Page three.'']
                               else Inl ''EOF marker not found''),
      docx_document = (\<lambda>content. if content = ''PK-policy''
                                  then Inr [''Grace period is 30 days.'']
                                  else Inl ''File is not a zip file''),
      generate_content = (\<lambda>i p. Inr '' The grace period is 30 days. ''),
      now = ''2025-07-04T09:11:24''\<rparr>"

text \<open>The same collaborators, with a model that raises on its second call.\<close>

definition env_quota :: env where
  "env_quota =
     env_ok\<lparr>generate_content :=
              (\<lambda>i p. if i = 1 then Inl ''429 quota exceeded''
                      else Inr '' The grace period is 30 days. '')\<rparr>"

text \<open>The same collaborators, on a full disk: no write to a temporary file succeeds.\<close>

definition env_disk_full :: env where
  "env_disk_full =
     env_ok\<lparr>tmp_write := (\<lambda>name content. Some ''[Errno 28] No space left on device'')\<rparr>"

text \<open>
  Two strings differ only in letter case, the second being the lower-case one: they
  have the same length and, position by position, the characters are equal or the
  second is a letter \<open>a\<close>..\<open>z\<close> and the first its capital.
\<close>

definition case_variant :: "char \<Rightarrow> char \<Rightarrow> bool" where
  "case_variant x y =
     (x = y \<or> (97 \<le> (of_char y :: nat) \<and> (of_char y :: nat) \<le> 122
                \<and> (of_char x :: nat) + 32 = of_char y))"

definition differs_only_in_case :: "string \<Rightarrow> string \<Rightarrow> bool" where
  "differs_only_in_case s t = list_all2 case_variant s t"

text \<open>A request with three questions about the PDF, and the text that the PDF
  extractor returns for it.\<close>

definition policy_questions :: "string list" where
  "policy_questions =
     [''What is the grace period?'', ''What is the waiting period?'', ''Is maternity covered?'']"

definition policy_request :: QueryRequest where
  "policy_request = \<lparr>documents = ''https://example.org/policy.pdf'', questions = policy_questions\<rparr>"

definition policy_text :: string where
  "policy_text = ''Grace period is 30 days.'' @ NL"

text \<open>The answer that these collaborators lead to, and the two responses.\<close>

definition policy_answer :: string where
  "policy_answer = ''The grace period is 30 days.''"

definition policy_response :: QueryResponse where
  "policy_response =
     \<lparr>answers = [policy_answer, policy_answer, policy_answer],
      document_url = ''https://example.org/policy.pdf'',
      total_questions = 3,
      processing_timestamp = ''2025-07-04T09:11:24'',
      model_info = \<lparr>llm = ''gemini-pro'', text_length = 25\<rparr>\<rparr>"

definition policy_upload_response :: FileUploadResponse where
  "policy_upload_response =
     \<lparr>upload_answers = [policy_answer, policy_answer, policy_answer],
      upload_total_questions = 3,
      upload_processing_timestamp = ''2025-07-04T09:11:24'',
      file_size = 11,
      upload_model_info = \<lparr>llm = ''gemini-pro'', text_length = 25\<rparr>,
      filename = ''Report.PDF''\<rparr>"

definition quota_failure :: failure where
  "quota_failure = HTTPException 500 ''Error processing with AI: 429 quota exceeded''"

section \<open>Strings: the budget and \<open>strip\<close>\<close>

lemma slice_to_nat: "slice_to s (int C) = take C s"
  by (simp add: slice_to_def Let_def min_def)

lemma budget_take: "budget text C = take C text"
  by (simp add: budget_def slice_to_nat)

text \<open>
  Claim C5. The budget of the prompt is the first \<open>C\<close> characters of the text (the code
  uses \<open>C = 8000\<close>): it is never longer than \<open>C\<close>, applying it twice is applying it
  once, and a text of at most \<open>C\<close> characters is left as it is.
\<close>

theorem budget_first_C:
  "budget text C = take C text
   \<and> length (budget text C) \<le> C
   \<and> budget (budget text C) C = budget text C
   \<and> (length text \<le> C \<longrightarrow> budget text C = text)"
  by (simp add: budget_take)

theorem budget_first_C_witness:
  "length ''Grace period is 30 days.'' \<le> 8000
   \<and> budget ''Grace period is 30 days.'' 8000 = ''Grace period is 30 days.''"
  using budget_first_C [of "''Grace period is 30 days.''" 8000] by simp

lemma rstrip_take: "rstrip s = take (length s - length (takeWhile isspace (rev s))) s"
  by (simp add: rstrip_def dropWhile_eq_drop rev_drop)

lemma last_rstrip: "rstrip s \<noteq> [] \<Longrightarrow> \<not> isspace (last (rstrip s))"
  unfolding rstrip_def by (simp add: last_rev hd_dropWhile)

lemma hd_rstrip: "rstrip s \<noteq> [] \<Longrightarrow> hd (rstrip s) = hd s"
  by (metis rstrip_take hd_take take_eq_Nil gr0I)

lemma rstrip_Nil: "rstrip [] = []"
  by (simp add: rstrip_def)

lemma hd_lstrip: "lstrip s \<noteq> [] \<Longrightarrow> \<not> isspace (hd (lstrip s))"
  unfolding lstrip_def by (simp add: hd_dropWhile)

lemma strip_ends:
  "strip s \<noteq> [] \<Longrightarrow> \<not> isspace (hd (strip s)) \<and> \<not> isspace (last (strip s))"
  unfolding strip_def
  by (metis hd_rstrip last_rstrip hd_lstrip rstrip_Nil)

section \<open>The loop over the questions\<close>

lemma files_emit [simp]: "files (emit e w) = files w"
  by (simp add: emit_def)

lemma trace_emit [simp]: "trace (emit e w) = trace w @ [e]"
  by (simp add: emit_def)

lemma files_cleanup: "files (cleanup n w) = (files w)(n := None)"
  by (auto simp: cleanup_def)

lemma trace_cleanup:
  "trace (cleanup n w) = trace w @ (if files w n \<noteq> None then [Unlink n] else [])"
  by (simp add: cleanup_def)

lemma gemini_loop_events:
  "gemini_loop E text qs i acc w = (r, w') \<Longrightarrow>
   files w' = files w
   \<and> (\<exists>g. trace w' = trace w @ g
          \<and> (\<forall>ev \<in> set g. \<exists>k p. ev = Generate k p \<and> i \<le> k)
          \<and> (\<forall>k p e. Generate k p \<in> set g \<longrightarrow> generate_content E k p = Inl e \<longrightarrow>
                 r = Inl e \<and> (\<forall>j p'. Generate j p' \<in> set g \<longrightarrow> j \<le> k)))"
proof (induction qs arbitrary: i acc w)
  case Nil
  then show ?case by simp
next
  case (Cons q qs)
  let ?p = "prompt text q"
  let ?w1 = "emit (Generate i ?p) w"
  show ?case
  proof (cases "generate_content E i ?p")
    case (Inl e0)
    with Cons.prems have "r = Inl e0" "w' = ?w1"
      by (simp_all add: Let_def)
    then show ?thesis using Inl
      by (intro conjI exI [of _ "[Generate i ?p]"]) auto
  next
    case (Inr resp)
    with Cons.prems have
      rest: "gemini_loop E text qs (Suc i) (acc @ [strip resp]) ?w1 = (r, w')"
      by (simp add: Let_def)
    from Cons.IH [OF rest] obtain g where
      f: "files w' = files w" and
      t: "trace w' = trace w @ Generate i ?p # g" and
      a: "\<forall>ev \<in> set g. \<exists>k p. ev = Generate k p \<and> Suc i \<le> k" and
      b: "\<forall>k p e. Generate k p \<in> set g \<longrightarrow> generate_content E k p = Inl e \<longrightarrow>
                 r = Inl e \<and> (\<forall>j p'. Generate j p' \<in> set g \<longrightarrow> j \<le> k)"
      by auto
    have a': "\<forall>ev \<in> set (Generate i ?p # g). \<exists>k p. ev = Generate k p \<and> i \<le> k"
      using a by (auto intro: Suc_leD)
    have b': "\<forall>k p e. Generate k p \<in> set (Generate i ?p # g) \<longrightarrow> generate_content E k p = Inl e \<longrightarrow>
                 r = Inl e \<and> (\<forall>j p'. Generate j p' \<in> set (Generate i ?p # g) \<longrightarrow> j \<le> k)"
    proof (intro allI impI)
      fix k p e
      assume m: "Generate k p \<in> set (Generate i ?p # g)" and e: "generate_content E k p = Inl e"
      from m e Inr have mg: "Generate k p \<in> set g" by auto
      with a have "Suc i \<le> k" by fastforce
      with b mg e show "r = Inl e \<and> (\<forall>j p'. Generate j p' \<in> set (Generate i ?p # g) \<longrightarrow> j \<le> k)"
        by auto
    qed
    from f t a' b' show ?thesis by blast
  qed
qed

lemma process_with_gemini_events:
  assumes "process_with_gemini E text qv w = (r, w')"
  shows "files w' = files w
     \<and> (\<exists>g. trace w' = trace w @ g \<and> model_calls_only g \<and> fail_fast E g r)
     \<and> (\<forall>f. r = Inl f \<longrightarrow> status_of f = 500)"
proof (cases qv)
  case (NotIterable e)
  with assms have "w' = w" "r = Inl (HTTPException 500 (''Error processing with AI: '' @ e))"
    by (simp_all add: process_with_gemini_def)
  then show ?thesis
    by (auto simp: model_calls_only_def fail_fast_def)
next
  case (Items qs)
  obtain r0 w1 where l: "gemini_loop E text qs 0 [] w = (r0, w1)"
    by (cases "gemini_loop E text qs 0 [] w")
  from assms Items l have w: "w' = w1"
    and r: "r = (case r0 of Inl e \<Rightarrow> Inl (HTTPException 500 (''Error processing with AI: '' @ e)) | Inr a \<Rightarrow> Inr a)"
    by (auto simp: process_with_gemini_def split: sum.splits)
  from gemini_loop_events [OF l] obtain g where
    f: "files w1 = files w" and
    t: "trace w1 = trace w @ g" and
    a: "\<forall>ev \<in> set g. \<exists>k p. ev = Generate k p \<and> 0 \<le> k" and
    b: "\<forall>k p e. Generate k p \<in> set g \<longrightarrow> generate_content E k p = Inl e \<longrightarrow>
                 r0 = Inl e \<and> (\<forall>j p'. Generate j p' \<in> set g \<longrightarrow> j \<le> k)"
    by blast
  have "model_calls_only g" using a by (auto simp: model_calls_only_def)
  moreover have "fail_fast E g r"
    unfolding fail_fast_def using b r by auto
  moreover have "\<forall>f. r = Inl f \<longrightarrow> status_of f = 500"
    using r by (auto split: sum.splits)
  ultimately show ?thesis using f t w by blast
qed

lemma gemini_loop_Inr:
  "gemini_loop E text qs i acc w = (Inr ans, w') \<Longrightarrow>
   \<exists>rs. ans = acc @ map strip rs \<and> length rs = length qs
        \<and> (\<forall>j<length qs. generate_content E (i + j) (prompt text (qs ! j)) = Inr (rs ! j))"
proof (induction qs arbitrary: i acc w)
  case Nil
  then show ?case by simp
next
  case (Cons q qs)
  from Cons.prems obtain r where
    r: "generate_content E i (prompt text q) = Inr r"
    and rest: "gemini_loop E text qs (Suc i) (acc @ [strip r]) (emit (Generate i (prompt text q)) w) = (Inr ans, w')"
    by (auto simp: Let_def split: sum.splits)
  from Cons.IH [OF rest] obtain rs where
    rs: "ans = (acc @ [strip r]) @ map strip rs" "length rs = length qs"
        "\<forall>j<length qs. generate_content E (Suc i + j) (prompt text (qs ! j)) = Inr (rs ! j)"
    by blast
  have "\<forall>j<length (q # qs). generate_content E (i + j) (prompt text ((q # qs) ! j)) = Inr ((r # rs) ! j)"
  proof (intro allI impI)
    fix j assume "j < length (q # qs)"
    then show "generate_content E (i + j) (prompt text ((q # qs) ! j)) = Inr ((r # rs) ! j)"
      using r rs(3) by (cases j) auto
  qed
  with rs(1,2) show ?case
    by (intro exI [of _ "r # rs"]) simp
qed

lemma process_with_gemini_Inr:
  assumes "process_with_gemini E text (Items qs) w = (Inr ans, w')"
  shows "length ans = length qs
     \<and> (\<forall>i<length qs. \<exists>r. generate_content E i (prompt text (qs ! i)) = Inr r \<and> ans ! i = strip r)"
proof -
  from assms have "gemini_loop E text qs 0 [] w = (Inr ans, w')"
    by (auto simp: process_with_gemini_def split: prod.splits sum.splits)
  from gemini_loop_Inr [OF this] obtain rs where
    rs: "ans = map strip rs" "length rs = length qs"
        "\<forall>j<length qs. generate_content E j (prompt text (qs ! j)) = Inr (rs ! j)"
    by auto
  then show ?thesis by auto
qed

section \<open>What a run of a handler does\<close>

lemma extract_text_from_pdf_world:
  "extract_text_from_pdf E p w = (r, w') \<Longrightarrow>
   w' = emit (PdfOpen p) w \<and> (\<forall>f. r = Inl f \<longrightarrow> (\<exists>d. f = HTTPException 500 d))"
  by (auto simp: extract_text_from_pdf_def Let_def split: sum.splits option.splits)

lemma extract_text_from_docx_world:
  "extract_text_from_docx E p w = (r, w') \<Longrightarrow>
   w' = emit (DocxOpen p) w \<and> (\<forall>f. r = Inl f \<longrightarrow> (\<exists>d. f = HTTPException 500 d))"
  by (auto simp: extract_text_from_docx_def Let_def split: sum.splits option.splits)

text \<open>The inner block of the URL handler.\<close>

lemma process_document_url_try_world:
  assumes "process_document_url_try E request n w = (r, w')"
  shows "files w' = files w
     \<and> (\<exists>g. trace w' = trace w @ PdfOpen n # g \<and> model_calls_only g \<and> fail_fast E g r)
     \<and> (\<forall>f. r = Inl f \<longrightarrow> status_of f = 500)"
proof -
  obtain x w1 where x: "extract_text_from_pdf E n w = (x, w1)"
    by (cases "extract_text_from_pdf E n w")
  from extract_text_from_pdf_world [OF x] have
    w1: "w1 = emit (PdfOpen n) w" and xf: "\<forall>f. x = Inl f \<longrightarrow> (\<exists>d. f = HTTPException 500 d)"
    by auto
  show ?thesis
  proof (cases x)
    case (Inl f)
    with assms x have "r = Inl f" "w' = w1"
      by (simp_all add: process_document_url_try_def)
    with w1 xf Inl show ?thesis
      by (auto simp: model_calls_only_def fail_fast_def)
  next
    case (Inr doc)
    obtain a w2 where a: "process_with_gemini E doc (Items (questions request)) w1 = (a, w2)"
      by (cases "process_with_gemini E doc (Items (questions request)) w1")
    from process_with_gemini_events [OF a] obtain g where
      f: "files w2 = files w1" and t: "trace w2 = trace w1 @ g" and
      m: "model_calls_only g" and ff: "fail_fast E g a" and
      s: "\<forall>f. a = Inl f \<longrightarrow> status_of f = 500"
      by blast
    from assms x Inr a have w': "w' = w2" and
      r: "(\<exists>f. a = Inl f \<and> r = Inl f) \<or> (\<exists>ans resp. a = Inr ans \<and> r = Inr resp)"
      by (auto simp: process_document_url_try_def split: sum.splits)
    have "fail_fast E g r"
      using ff r unfolding fail_fast_def by auto
    moreover have "\<forall>f. r = Inl f \<longrightarrow> status_of f = 500"
      using s r by auto
    ultimately show ?thesis using f t m w1 w' by auto
  qed
qed


text \<open>The block that writes the temporary file.\<close>

lemma NamedTemporaryFile_written:
  assumes "tmp_write E (tmp_stem E @ sfx) c = None"
  shows "\<exists>w1. NamedTemporaryFile E sfx c w = (Inr (tmp_stem E @ sfx), w1)
            \<and> files w1 = (files w)(tmp_stem E @ sfx \<mapsto> c)
            \<and> trace w1 = trace w @ [TempCreate (tmp_stem E @ sfx)]"
  using assms by (simp add: NamedTemporaryFile_def Let_def)

lemma NamedTemporaryFile_failed:
  assumes "tmp_write E (tmp_stem E @ sfx) c = Some e"
  shows "\<exists>w1. NamedTemporaryFile E sfx c w = (Inl e, w1)
            \<and> files w1 = (files w)(tmp_stem E @ sfx \<mapsto> [])
            \<and> trace w1 = trace w @ [TempCreate (tmp_stem E @ sfx)]"
  using assms by (simp add: NamedTemporaryFile_def Let_def)

lemma download_document_Inl:
  "http_get E url = Inl e \<Longrightarrow>
   download_document E url w
     = (Inl (HTTPException 400 (''Error downloading document: '' @ e)), emit (HttpGet url) w)"
  by (simp add: download_document_def Let_def)

lemma download_document_written:
  assumes "http_get E url = Inr c" "tmp_write E (tmp_stem E @ ''.pdf'') c = None"
  shows "\<exists>w1. download_document E url w = (Inr (tmp_stem E @ ''.pdf''), w1)
            \<and> files w1 = (files w)(tmp_stem E @ ''.pdf'' \<mapsto> c)
            \<and> trace w1 = trace w @ [HttpGet url, TempCreate (tmp_stem E @ ''.pdf'')]"
  using assms NamedTemporaryFile_written [OF assms(2), of "emit (HttpGet url) w"]
  by (auto simp: download_document_def Let_def)

lemma download_document_write_failed:
  assumes "http_get E url = Inr c" "tmp_write E (tmp_stem E @ ''.pdf'') c = Some e"
  shows "\<exists>w1. download_document E url w
               = (Inl (HTTPException 400 (''Error downloading document: '' @ e)), w1)
            \<and> files w1 = (files w)(tmp_stem E @ ''.pdf'' \<mapsto> [])
            \<and> trace w1 = trace w @ [HttpGet url, TempCreate (tmp_stem E @ ''.pdf'')]"
  using assms NamedTemporaryFile_failed [OF assms(2), of "emit (HttpGet url) w"]
  by (auto simp: download_document_def Let_def)

lemma process_document_url_download_failed:
  "http_get E (documents request) = Inl e \<Longrightarrow>
   process_document_url E request w
     = (Inl (HTTPException 400 (''Error downloading document: '' @ e)),
        emit (HttpGet (documents request)) w)"
  by (simp add: process_document_url_def download_document_Inl)

lemma process_document_url_write_failed:
  assumes "http_get E (documents request) = Inr c"
    and "tmp_write E (tmp_stem E @ ''.pdf'') c = Some e"
  shows "\<exists>w1. process_document_url E request w
               = (Inl (HTTPException 400 (''Error downloading document: '' @ e)), w1)
            \<and> files w1 = (files w)(tmp_stem E @ ''.pdf'' \<mapsto> [])
            \<and> trace w1 = trace w @ [HttpGet (documents request), TempCreate (tmp_stem E @ ''.pdf'')]"
  using download_document_write_failed [OF assms, of w]
  by (auto simp: process_document_url_def)

lemma process_document_url_downloaded:
  assumes c: "http_get E (documents request) = Inr c"
    and wr: "tmp_write E (tmp_stem E @ ''.pdf'') c = None"
    and run: "process_document_url E request w = (r, w')"
  shows "files w' = (files w)(tmp_stem E @ ''.pdf'' := None)
     \<and> (\<exists>g. trace w' = trace w @ [HttpGet (documents request), TempCreate (tmp_stem E @ ''.pdf''),
                                    PdfOpen (tmp_stem E @ ''.pdf'')] @ g @ [Unlink (tmp_stem E @ ''.pdf'')]
            \<and> model_calls_only g \<and> fail_fast E g r)
     \<and> (\<forall>f. r = Inl f \<longrightarrow> status_of f = 500)"
proof -
  let ?n = "tmp_stem E @ ''.pdf''"
  from download_document_written [OF c wr, of w] obtain w1 where
    d: "download_document E (documents request) w = (Inr ?n, w1)" and
    f1: "files w1 = (files w)(?n \<mapsto> c)" and
    t1: "trace w1 = trace w @ [HttpGet (documents request), TempCreate ?n]"
    by blast
  obtain r2 w2 where t: "process_document_url_try E request ?n w1 = (r2, w2)"
    by (cases "process_document_url_try E request ?n w1")
  from run t d have r: "r = r2" and w': "w' = cleanup ?n w2"
    by (simp_all add: process_document_url_def)
  from process_document_url_try_world [OF t] obtain g where
    f: "files w2 = files w1" and tr: "trace w2 = trace w1 @ PdfOpen ?n # g" and
    m: "model_calls_only g" and ff: "fail_fast E g r2" and
    s: "\<forall>f. r2 = Inl f \<longrightarrow> status_of f = 500"
    by blast
  have ex: "files w2 ?n \<noteq> None" using f f1 by simp
  have "files w' = (files w)(?n := None)"
    using w' f f1 by (simp add: files_cleanup)
  moreover have "trace w' = trace w @ [HttpGet (documents request), TempCreate ?n, PdfOpen ?n] @ g @ [Unlink ?n]"
    using w' tr t1 ex by (simp add: trace_cleanup)
  ultimately show ?thesis using m ff s r by blast
qed

lemma process_file_upload_try_world:
  assumes run: "process_file_upload_try E fn ext c qv n w = (r, w')"
    and ext: "ext \<in> set allowed_extensions"
  shows "files w' = files w
     \<and> (\<exists>g. trace w' = trace w @ (if ext = ''.pdf'' then PdfOpen n else DocxOpen n) # g
            \<and> model_calls_only g \<and> fail_fast E g r)
     \<and> (\<forall>f. r = Inl f \<longrightarrow> status_of f = 500)"
proof -
  let ?ev = "if ext = ''.pdf'' then PdfOpen n else DocxOpen n"
  let ?x = "if ext = ''.pdf'' then extract_text_from_pdf E n w
            else if ext \<in> set [''.doc'', ''.docx''] then extract_text_from_docx E n w
            else (Inl (HTTPException 400 ''Unsupported file format''), w)"
  obtain x w1 where x: "?x = (x, w1)"
    by (cases ?x)
  have w1: "w1 = emit ?ev w" and xf: "\<forall>f. x = Inl f \<longrightarrow> (\<exists>d. f = HTTPException 500 d)"
    using x ext extract_text_from_pdf_world [of E n w x w1] extract_text_from_docx_world [of E n w x w1]
    by (auto simp: allowed_extensions_def split: if_splits)
  show ?thesis
  proof (cases x)
    case (Inl f)
    with run x have "r = Inl f" "w' = w1"
      by (simp_all add: process_file_upload_try_def)
    with w1 xf Inl show ?thesis
      by (auto simp: model_calls_only_def fail_fast_def)
  next
    case (Inr doc)
    obtain a w2 where a: "process_with_gemini E doc qv w1 = (a, w2)"
      by (cases "process_with_gemini E doc qv w1")
    from process_with_gemini_events [OF a] obtain g where
      f: "files w2 = files w1" and t: "trace w2 = trace w1 @ g" and
      m: "model_calls_only g" and ff: "fail_fast E g a" and
      s: "\<forall>f. a = Inl f \<longrightarrow> status_of f = 500"
      by blast
    have ni: "\<And>e ans. qv = NotIterable e \<Longrightarrow> a \<noteq> Inr ans"
      using a by (auto simp: process_with_gemini_def)
    from run x Inr a have w': "w' = w2" and
      r: "(\<exists>f. a = Inl f \<and> r = Inl f) \<or> (\<exists>ans resp. a = Inr ans \<and> r = Inr resp)"
      using ni by (auto simp: process_file_upload_try_def split: sum.splits questions_value.splits)
    have "fail_fast E g r"
      using ff r unfolding fail_fast_def by auto
    moreover have "\<forall>f. r = Inl f \<longrightarrow> status_of f = 500"
      using s r by auto
    ultimately show ?thesis using f t m w1 w' by auto
  qed
qed

lemma process_file_upload_malformed:
  "process_file_upload E fn c JSONDecodeError w
     = (Inl (HTTPException 400 ''Invalid JSON format for questions''), w)"
  by (simp add: process_file_upload_def)

lemma process_file_upload_raised:
  "process_file_upload E fn c (Raised e) w
     = (Inl (HTTPException 500 (''Internal server error: '' @ e)), w)"
  by (simp add: process_file_upload_def)

lemma process_file_upload_rejected:
  "lower (snd (splitext fn)) \<notin> set allowed_extensions \<Longrightarrow>
   process_file_upload E fn c (Decoded qv) w
     = (Inl (HTTPException 400 (''Unsupported file type: '' @ lower (snd (splitext fn)))), w)"
  by (simp add: process_file_upload_def Let_def)

lemma process_file_upload_write_failed:
  assumes ext: "lower (snd (splitext fn)) \<in> set allowed_extensions"
    and wr: "tmp_write E (tmp_stem E @ lower (snd (splitext fn))) c = Some e"
  shows "\<exists>w1. process_file_upload E fn c (Decoded qv) w
               = (Inl (HTTPException 500 (''Internal server error: '' @ e)), w1)
            \<and> files w1 = (files w)(tmp_stem E @ lower (snd (splitext fn)) \<mapsto> [])
            \<and> trace w1 = trace w @ [TempCreate (tmp_stem E @ lower (snd (splitext fn)))]"
  using ext NamedTemporaryFile_failed [OF wr, of w]
  by (auto simp: process_file_upload_def Let_def)

lemma process_file_upload_accepted:
  assumes ext: "lower (snd (splitext fn)) \<in> set allowed_extensions"
    and wr: "tmp_write E (tmp_stem E @ lower (snd (splitext fn))) c = None"
    and run: "process_file_upload E fn c (Decoded qv) w = (r, w')"
  shows "files w' = (files w)(tmp_stem E @ lower (snd (splitext fn)) := None)
     \<and> (\<exists>g. trace w' = trace w @ [TempCreate (tmp_stem E @ lower (snd (splitext fn))),
                                    (if lower (snd (splitext fn)) = ''.pdf''
                                     then PdfOpen (tmp_stem E @ lower (snd (splitext fn)))
                                     else DocxOpen (tmp_stem E @ lower (snd (splitext fn))))]
                                 @ g @ [Unlink (tmp_stem E @ lower (snd (splitext fn)))]
            \<and> model_calls_only g \<and> fail_fast E g r)
     \<and> (\<forall>f. r = Inl f \<longrightarrow> status_of f = 500)"
proof -
  let ?ext = "lower (snd (splitext fn))"
  let ?n = "tmp_stem E @ ?ext"
  from NamedTemporaryFile_written [OF wr, of w] obtain w1 where
    d: "NamedTemporaryFile E ?ext c w = (Inr ?n, w1)" and
    f1: "files w1 = (files w)(?n \<mapsto> c)" and
    t1: "trace w1 = trace w @ [TempCreate ?n]"
    by blast
  obtain r2 w2 where t: "process_file_upload_try E fn ?ext c qv ?n w1 = (r2, w2)"
    by (cases "process_file_upload_try E fn ?ext c qv ?n w1")
  from run t ext d have r: "r = r2" and w': "w' = cleanup ?n w2"
    by (simp_all add: process_file_upload_def Let_def)
  from process_file_upload_try_world [OF t ext] obtain g where
    f: "files w2 = files w1" and
    tr: "trace w2 = trace w1 @ (if ?ext = ''.pdf'' then PdfOpen ?n else DocxOpen ?n) # g" and
    m: "model_calls_only g" and ff: "fail_fast E g r2" and
    s: "\<forall>f. r2 = Inl f \<longrightarrow> status_of f = 500"
    by blast
  have ex: "files w2 ?n \<noteq> None" using f f1 by simp
  have "files w' = (files w)(?n := None)"
    using w' f f1 by (simp add: files_cleanup)
  moreover have "trace w' = trace w @ [TempCreate ?n, (if ?ext = ''.pdf'' then PdfOpen ?n else DocxOpen ?n)]
                             @ g @ [Unlink ?n]"
    using w' tr t1 ex by (simp add: trace_cleanup)
  ultimately show ?thesis using m ff s r by blast
qed

section \<open>Failures of the model\<close>

lemma new_events_append: "trace w' = trace w @ evs \<Longrightarrow> new_events w w' = evs"
  by (simp add: new_events_def)

lemma new_events_same: "new_events w w = []"
  by (simp add: new_events_def)

lemma new_events_emit: "new_events w (emit e w) = [e]"
  by (simp add: new_events_def)

lemma fail_fast_Nil: "fail_fast E [] r"
  by (simp add: fail_fast_def)

lemma fail_fast_wrap:
  assumes "fail_fast E g r" "model_calls_only g"
    "\<forall>k p. Generate k p \<notin> set pre" "\<forall>k p. Generate k p \<notin> set post"
  shows "fail_fast E (pre @ g @ post) r"
  using assms unfolding fail_fast_def by auto

text \<open>The first failing call decides the result of the loop.\<close>

lemma gemini_loop_first_failure:
  "k < length qs \<Longrightarrow>
   \<forall>j<k. \<exists>r. generate_content E (i + j) (prompt text (qs ! j)) = Inr r \<Longrightarrow>
   generate_content E (i + k) (prompt text (qs ! k)) = Inl e \<Longrightarrow>
   gemini_loop E text qs i acc w
     = (Inl e, w\<lparr>trace := trace w @ map (\<lambda>j. Generate (i + j) (prompt text (qs ! j))) [0..<Suc k]\<rparr>)"
proof (induction qs arbitrary: i acc w k)
  case Nil
  then show ?case by simp
next
  case (Cons q qs)
  show ?case
  proof (cases k)
    case 0
    with Cons.prems show ?thesis
      by (simp add: Let_def emit_def)
  next
    case (Suc k')
    from Cons.prems(2) Suc obtain r where r: "generate_content E i (prompt text q) = Inr r"
      by fastforce
    have a: "k' < length qs" using Cons.prems(1) Suc by simp
    have b: "\<forall>j<k'. \<exists>r. generate_content E (Suc i + j) (prompt text (qs ! j)) = Inr r"
    proof (intro allI impI)
      fix j assume "j < k'"
      then have "Suc j < k" using Suc by simp
      with Cons.prems(2) have "\<exists>r. generate_content E (i + Suc j) (prompt text ((q # qs) ! Suc j)) = Inr r"
        by blast
      then show "\<exists>r. generate_content E (Suc i + j) (prompt text (qs ! j)) = Inr r" by simp
    qed
    have c: "generate_content E (Suc i + k') (prompt text (qs ! k')) = Inl e"
      using Cons.prems(3) Suc by simp
    have m: "map (\<lambda>j. Generate (i + j) (prompt text ((q # qs) ! j))) [0..<Suc (Suc k')]
             = Generate i (prompt text q)
               # map (\<lambda>j. Generate (Suc i + j) (prompt text (qs ! j))) [0..<Suc k']"
      by (subst map_upt_Suc) simp
    let ?w1 = "emit (Generate i (prompt text q)) w"
    have "gemini_loop E text (q # qs) i acc w
          = gemini_loop E text qs (Suc i) (acc @ [strip r]) ?w1"
      using r by (simp add: Let_def)
    also have "\<dots> = (Inl e, ?w1\<lparr>trace := trace ?w1
                  @ map (\<lambda>j. Generate (Suc i + j) (prompt text (qs ! j))) [0..<Suc k']\<rparr>)"
      by (rule Cons.IH [OF a b c])
    also have "\<dots> = (Inl e, w\<lparr>trace := trace w
                  @ map (\<lambda>j. Generate (i + j) (prompt text ((q # qs) ! j))) [0..<Suc k]\<rparr>)"
      unfolding Suc m by (simp add: emit_def del: upt_Suc)
    finally show ?thesis .
  qed
qed

lemma process_with_gemini_first_failure:
  assumes "k < length qs"
    and "\<forall>j<k. \<exists>r. generate_content E j (prompt text (qs ! j)) = Inr r"
    and "generate_content E k (prompt text (qs ! k)) = Inl e"
  shows "process_with_gemini E text (Items qs) w
     = (Inl (HTTPException 500 (''Error processing with AI: '' @ e)),
        w\<lparr>trace := trace w @ map (\<lambda>j. Generate j (prompt text (qs ! j))) [0..<Suc k]\<rparr>)"
  using gemini_loop_first_failure [of k qs E 0 "text" e "[]" w] assms
  by (simp add: process_with_gemini_def)

lemma fail_fast_no_calls:
  "\<forall>k p. Generate k p \<notin> set evs \<Longrightarrow> fail_fast E evs r"
  by (simp add: fail_fast_def)

lemma process_document_url_fail_fast:
  assumes "process_document_url E request w = (r, w')"
  shows "fail_fast E (new_events w w') r"
proof (cases "http_get E (documents request)")
  case (Inl e)
  from assms process_document_url_download_failed [OF Inl, of w]
  have "new_events w w' = [HttpGet (documents request)]"
    by (auto simp: new_events_emit)
  then show ?thesis by (simp add: fail_fast_def)
next
  case (Inr c)
  show ?thesis
  proof (cases "tmp_write E (tmp_stem E @ ''.pdf'') c")
    case (Some e)
    from process_document_url_write_failed [OF Inr Some, of w] assms
    have "trace w' = trace w @ [HttpGet (documents request), TempCreate (tmp_stem E @ ''.pdf'')]"
      by auto
    from new_events_append [OF this] show ?thesis
      by (simp add: fail_fast_no_calls)
  next
    case None
    from process_document_url_downloaded [OF Inr None assms] obtain g where
      t: "trace w' = trace w @ [HttpGet (documents request), TempCreate (tmp_stem E @ ''.pdf''),
                               PdfOpen (tmp_stem E @ ''.pdf'')] @ g @ [Unlink (tmp_stem E @ ''.pdf'')]"
      and m: "model_calls_only g" and f: "fail_fast E g r"
      by blast
    have "fail_fast E ([HttpGet (documents request), TempCreate (tmp_stem E @ ''.pdf''),
                        PdfOpen (tmp_stem E @ ''.pdf'')] @ g @ [Unlink (tmp_stem E @ ''.pdf'')]) r"
      by (rule fail_fast_wrap [OF f m]) simp_all
    with new_events_append [OF t] show ?thesis by simp
  qed
qed

lemma process_file_upload_fail_fast:
  assumes "process_file_upload E fn c qj w = (r, w')"
  shows "fail_fast E (new_events w w') r"
proof (cases qj)
  case JSONDecodeError
  with assms have "w' = w" by (simp add: process_file_upload_malformed)
  then show ?thesis by (simp add: new_events_same fail_fast_Nil)
next
  case (Raised e)
  with assms have "w' = w" by (simp add: process_file_upload_raised)
  then show ?thesis by (simp add: new_events_same fail_fast_Nil)
next
  case (Decoded qv)
  from assms Decoded have run: "process_file_upload E fn c (Decoded qv) w = (r, w')" by simp
  let ?n = "tmp_stem E @ lower (snd (splitext fn))"
  show ?thesis
  proof (cases "lower (snd (splitext fn)) \<in> set allowed_extensions")
    case False
    with run have "w' = w" by (simp add: process_file_upload_rejected)
    then show ?thesis by (simp add: new_events_same fail_fast_Nil)
  next
    case True
    show ?thesis
    proof (cases "tmp_write E ?n c")
      case (Some e)
      from process_file_upload_write_failed [OF True Some, of qv w] run
      have "trace w' = trace w @ [TempCreate ?n]"
        by auto
      from new_events_append [OF this] show ?thesis
        by (simp add: fail_fast_no_calls)
    next
      case None
      let ?o = "if lower (snd (splitext fn)) = ''.pdf'' then PdfOpen ?n else DocxOpen ?n"
      from process_file_upload_accepted [OF True None run] obtain g where
        t: "trace w' = trace w @ [TempCreate ?n, ?o] @ g @ [Unlink ?n]"
        and m: "model_calls_only g" and f: "fail_fast E g r"
        by blast
      have "fail_fast E ([TempCreate ?n, ?o] @ g @ [Unlink ?n]) r"
        by (rule fail_fast_wrap [OF f m]) simp_all
      with new_events_append [OF t] show ?thesis by simp
    qed
  qed
qed

section \<open>Successful requests\<close>

lemma process_document_url_Inr:
  assumes "process_document_url E request w = (Inr resp, w')"
  shows "\<exists>doc w1 w2. process_with_gemini E doc (Items (questions request)) w1 = (Inr (answers resp), w2)"
proof -
  from assms obtain n w1 w2 where
    t: "process_document_url_try E request n w1 = (Inr resp, w2)"
    by (auto simp: process_document_url_def split: prod.splits sum.splits)
  then obtain doc w3 ans where
    "process_with_gemini E doc (Items (questions request)) w3 = (Inr ans, w2)"
    "answers resp = ans"
    by (auto simp: process_document_url_try_def split: prod.splits sum.splits)
  then show ?thesis by blast
qed

lemma process_file_upload_Inr:
  assumes "process_file_upload E fn c qj w = (Inr resp, w')"
  shows "\<exists>qs doc w1 w2. qj = Decoded (Items qs)
           \<and> process_with_gemini E doc (Items qs) w1 = (Inr (upload_answers resp), w2)"
proof -
  from assms obtain qv ext n w1 w2 where
    q: "qj = Decoded qv" and
    t: "process_file_upload_try E fn ext c qv n w1 = (Inr resp, w2)"
    by (auto simp: process_file_upload_def Let_def
        split: json_loads_result.splits prod.splits sum.splits if_splits)
  then obtain doc w3 ans qs where
    "process_with_gemini E doc qv w3 = (Inr ans, w2)" "qv = Items qs"
    "upload_answers resp = ans"
    by (auto simp: process_file_upload_try_def split: prod.splits sum.splits questions_value.splits)
  with q show ?thesis by blast
qed

lemma process_with_gemini_stripped:
  assumes "process_with_gemini E text qv w = (Inr ans, w')"
  shows "\<forall>a \<in> set ans. a \<noteq> [] \<longrightarrow> \<not> isspace (hd a) \<and> \<not> isspace (last a)"
proof (cases qv)
  case (NotIterable e)
  with assms show ?thesis by (simp add: process_with_gemini_def)
next
  case (Items qs)
  with assms have "gemini_loop E text qs 0 [] w = (Inr ans, w')"
    by (auto simp: process_with_gemini_def split: prod.splits sum.splits)
  from gemini_loop_Inr [OF this] obtain rs where "ans = map strip rs" by auto
  then show ?thesis using strip_ends by auto
qed

section \<open>The temporary file\<close>

lemma created_files:
  assumes "trace w' = trace w @ pre @ g @ post" "model_calls_only g"
  shows "TempCreate p \<in> set (new_events w w') \<longleftrightarrow> TempCreate p \<in> set pre \<or> TempCreate p \<in> set post"
  using assms new_events_append [OF assms(1)] by (auto simp: model_calls_only_def)

text \<open>Once the temporary file has been written, the \<open>finally\<close> block removes it
  whatever the inner block did; a request that fails before it creates no file.\<close>

lemma process_document_url_released:
  assumes run: "process_document_url E request w = (r, w')"
    and ok: "\<forall>c e. http_get E (documents request) = Inr c
               \<longrightarrow> tmp_write E (tmp_stem E @ ''.pdf'') c \<noteq> Some e"
  shows "(\<forall>p. TempCreate p \<in> set (new_events w w') \<longrightarrow> files w' p = None)
       \<and> (\<forall>p. files w p = None \<longrightarrow> files w' p = None)"
proof (cases "http_get E (documents request)")
  case (Inl e)
  from run process_document_url_download_failed [OF Inl, of w]
  have "w' = emit (HttpGet (documents request)) w" by simp
  then show ?thesis by (simp add: new_events_emit)
next
  case (Inr c)
  let ?n = "tmp_stem E @ ''.pdf''"
  from ok Inr have wr: "tmp_write E ?n c = None"
    by (cases "tmp_write E ?n c") auto
  from process_document_url_downloaded [OF Inr wr run] obtain g where
    f: "files w' = (files w)(?n := None)" and
    t: "trace w' = trace w @ [HttpGet (documents request), TempCreate ?n, PdfOpen ?n] @ g @ [Unlink ?n]"
    and m: "model_calls_only g"
    by blast
  from created_files [OF t m] f show ?thesis by auto
qed

lemma process_file_upload_released:
  assumes run: "process_file_upload E fn c qj w = (r, w')"
    and ok: "\<forall>e. tmp_write E (tmp_stem E @ lower (snd (splitext fn))) c \<noteq> Some e"
  shows "(\<forall>p. TempCreate p \<in> set (new_events w w') \<longrightarrow> files w' p = None)
       \<and> (\<forall>p. files w p = None \<longrightarrow> files w' p = None)"
proof (cases qj)
  case JSONDecodeError
  with run have "w' = w" by (simp add: process_file_upload_malformed)
  then show ?thesis by (simp add: new_events_same)
next
  case (Raised e)
  with run have "w' = w" by (simp add: process_file_upload_raised)
  then show ?thesis by (simp add: new_events_same)
next
  case (Decoded qv)
  show ?thesis
  proof (cases "lower (snd (splitext fn)) \<in> set allowed_extensions")
    case False
    with run Decoded have "w' = w" by (simp add: process_file_upload_rejected)
    then show ?thesis by (simp add: new_events_same)
  next
    case True
    let ?n = "tmp_stem E @ lower (snd (splitext fn))"
    let ?o = "if lower (snd (splitext fn)) = ''.pdf'' then PdfOpen ?n else DocxOpen ?n"
    from ok have wr: "tmp_write E ?n c = None"
      by (cases "tmp_write E ?n c") auto
    from run Decoded have run': "process_file_upload E fn c (Decoded qv) w = (r, w')" by simp
    from process_file_upload_accepted [OF True wr run'] obtain g where
      f: "files w' = (files w)(?n := None)" and
      t: "trace w' = trace w @ [TempCreate ?n, ?o] @ g @ [Unlink ?n]"
      and m: "model_calls_only g"
      by blast
    from created_files [OF t m] f show ?thesis by auto
  qed
qed

text \<open>When the block that writes the temporary file raises, the handler ends outside
  its \<open>try\<close> ... \<open>finally\<close> and the file stays.\<close>

lemma process_document_url_leaks:
  assumes "http_get E (documents request) = Inr c"
    and "tmp_write E (tmp_stem E @ ''.pdf'') c = Some e"
    and "process_document_url E request w = (r, w')"
  shows "r = Inl (HTTPException 400 (''Error downloading document: '' @ e))
       \<and> TempCreate (tmp_stem E @ ''.pdf'') \<in> set (new_events w w')
       \<and> files w' (tmp_stem E @ ''.pdf'') \<noteq> None"
proof -
  from process_document_url_write_failed [OF assms(1,2), of w] assms(3)
  have r: "r = Inl (HTTPException 400 (''Error downloading document: '' @ e))"
    and f: "files w' = (files w)(tmp_stem E @ ''.pdf'' \<mapsto> [])"
    and t: "trace w' = trace w @ [HttpGet (documents request), TempCreate (tmp_stem E @ ''.pdf'')]"
    by auto
  from new_events_append [OF t] r f show ?thesis by simp
qed

lemma process_file_upload_leaks:
  assumes "lower (snd (splitext fn)) \<in> set allowed_extensions"
    and "tmp_write E (tmp_stem E @ lower (snd (splitext fn))) c = Some e"
    and "process_file_upload E fn c (Decoded qv) w = (r, w')"
  shows "r = Inl (HTTPException 500 (''Internal server error: '' @ e))
       \<and> TempCreate (tmp_stem E @ lower (snd (splitext fn))) \<in> set (new_events w w')
       \<and> files w' (tmp_stem E @ lower (snd (splitext fn))) \<noteq> None"
proof -
  from process_file_upload_write_failed [OF assms(1,2), of qv w] assms(3)
  have r: "r = Inl (HTTPException 500 (''Internal server error: '' @ e))"
    and f: "files w' = (files w)(tmp_stem E @ lower (snd (splitext fn)) \<mapsto> [])"
    and t: "trace w' = trace w @ [TempCreate (tmp_stem E @ lower (snd (splitext fn)))]"
    by auto
  from new_events_append [OF t] r f show ?thesis by simp
qed

section \<open>Parser failures and validation\<close>

text \<open>The page loop stops at the first page whose extraction raises.\<close>

lemma pdf_pages_first_failure:
  "pdf_pages (map Inr ts @ Inl e # rest) acc = Inl e"
  by (induction ts arbitrary: acc) simp_all

lemma extract_text_from_pdf_failure:
  assumes "files w p = Some c"
    and "pdf_reader E c = Inl e \<or> (\<exists>ts rest. pdf_reader E c = Inr (map Inr ts @ Inl e # rest))"
  shows "extract_text_from_pdf E p w
           = (Inl (HTTPException 500 (''Error processing PDF: '' @ e)), emit (PdfOpen p) w)"
  using assms
  by (auto simp: extract_text_from_pdf_def Let_def pdf_pages_first_failure)

lemma extract_text_from_docx_failure:
  assumes "files w p = Some c" and "docx_document E c = Inl e"
  shows "extract_text_from_docx E p w
           = (Inl (HTTPException 500 (''Error processing DOCX: '' @ e)), emit (DocxOpen p) w)"
  using assms
  by (simp add: extract_text_from_docx_def Let_def)

lemma process_document_url_parser_failure:
  assumes c: "http_get E (documents request) = Inr c"
    and wr: "tmp_write E (tmp_stem E @ ''.pdf'') c = None"
    and p: "pdf_reader E c = Inl e \<or> (\<exists>ts rest. pdf_reader E c = Inr (map Inr ts @ Inl e # rest))"
  shows "fst (process_document_url E request w)
           = Inl (HTTPException 500 (''Error processing PDF: '' @ e))"
proof -
  let ?n = "tmp_stem E @ ''.pdf''"
  from download_document_written [OF c wr, of w] obtain w1 where
    d: "download_document E (documents request) w = (Inr ?n, w1)" and
    f1: "files w1 ?n = Some c"
    by auto
  from extract_text_from_pdf_failure [OF f1 p]
  have "fst (process_document_url_try E request ?n w1)
          = Inl (HTTPException 500 (''Error processing PDF: '' @ e))"
    by (simp add: process_document_url_try_def)
  with d show ?thesis
    by (simp add: process_document_url_def case_prod_beta)
qed

lemma process_file_upload_pdf_failure:
  assumes ext: "lower (snd (splitext fn)) = ''.pdf''"
    and wr: "tmp_write E (tmp_stem E @ ''.pdf'') c = None"
    and p: "pdf_reader E c = Inl e \<or> (\<exists>ts rest. pdf_reader E c = Inr (map Inr ts @ Inl e # rest))"
  shows "fst (process_file_upload E fn c (Decoded qv) w)
           = Inl (HTTPException 500 (''Error processing PDF: '' @ e))"
proof -
  let ?n = "tmp_stem E @ ''.pdf''"
  from NamedTemporaryFile_written [OF wr, of w] obtain w1 where
    d: "NamedTemporaryFile E ''.pdf'' c w = (Inr ?n, w1)" and
    f1: "files w1 ?n = Some c"
    by auto
  from extract_text_from_pdf_failure [OF f1 p]
  have "fst (process_file_upload_try E fn ''.pdf'' c qv ?n w1)
          = Inl (HTTPException 500 (''Error processing PDF: '' @ e))"
    by (simp add: process_file_upload_try_def)
  with d ext show ?thesis
    by (simp add: process_file_upload_def Let_def allowed_extensions_def case_prod_beta)
qed

lemma process_file_upload_docx_failure:
  assumes ext: "lower (snd (splitext fn)) = ''.doc'' \<or> lower (snd (splitext fn)) = ''.docx''"
    and wr: "tmp_write E (tmp_stem E @ lower (snd (splitext fn))) c = None"
    and p: "docx_document E c = Inl e"
  shows "fst (process_file_upload E fn c (Decoded qv) w)
           = Inl (HTTPException 500 (''Error processing DOCX: '' @ e))"
proof -
  let ?x = "lower (snd (splitext fn))"
  let ?n = "tmp_stem E @ ?x"
  from NamedTemporaryFile_written [OF wr, of w] obtain w1 where
    d: "NamedTemporaryFile E ?x c w = (Inr ?n, w1)" and
    f1: "files w1 ?n = Some c"
    by auto
  from ext have x: "?x \<noteq> ''.pdf''" "?x \<in> set [''.doc'', ''.docx'']" "?x \<in> set allowed_extensions"
    by (auto simp: allowed_extensions_def)
  from extract_text_from_docx_failure [OF f1 p] x
  have "fst (process_file_upload_try E fn ?x c qv ?n w1)
          = Inl (HTTPException 500 (''Error processing DOCX: '' @ e))"
    by (simp add: process_file_upload_try_def)
  with d x show ?thesis
    by (simp add: process_file_upload_def Let_def case_prod_beta)
qed

lemma hackrx_run_empty_questions:
  "hackrx_run E d [] w = (Inl RequestValidationError, w)"
  by (simp add: hackrx_run_def QueryRequest_validate_def)

text \<open>Lower case of a name that differs from a lower-case name in letter case only.\<close>

lemma lower_char_case_variant:
  assumes "case_variant x y" and "lower_char y = y"
  shows "lower_char x = y"
proof (cases "x = y")
  case True
  with assms show ?thesis by simp
next
  case False
  with assms(1) have y: "97 \<le> (of_char y :: nat)" "(of_char y :: nat) \<le> 122"
    and xy: "(of_char x :: nat) + 32 = of_char y"
    by (auto simp: case_variant_def)
  then have "65 \<le> (of_char x :: nat) \<and> (of_char x :: nat) \<le> 90" by linarith
  then have "lower_char x = char_of ((of_char x :: nat) + 32)"
    by (simp add: lower_char_def Let_def)
  with xy show ?thesis by simp
qed

lemma lower_differs_only_in_case:
  assumes "differs_only_in_case s t" and "lower t = t"
  shows "lower s = t"
  using assms unfolding differs_only_in_case_def lower_def
proof (induction s t rule: list_all2_induct)
  case Nil
  then show ?case by simp
next
  case (Cons x xs y ys)
  then show ?case by (simp add: lower_char_case_variant)
qed

lemma lower_allowed_extensions:
  "a \<in> set allowed_extensions \<Longrightarrow> lower a = a"
  by (auto simp: allowed_extensions_def lower_def lower_char_def)

section \<open>The claims\<close>

text \<open>
  Claim C1. A request that succeeds returns one answer for each question, in the order
  of the questions: answer \<open>i\<close> is the stripped text that the \<open>i\<close>-th call of the
  model returned for the prompt of question \<open>i\<close>. No question is moved, merged or
  dropped. This holds for \<open>process_with_gemini\<close> and for both handlers.
\<close>

theorem answers_follow_questions:
  "(process_with_gemini E text (Items qs) w = (Inr ans, w')
      \<longrightarrow> length ans = length qs
          \<and> (\<forall>i<length qs. \<exists>r. generate_content E i (prompt text (qs ! i)) = Inr r
                                 \<and> ans ! i = strip r))
   \<and> (process_document_url E request w1 = (Inr resp, w1')
      \<longrightarrow> length (answers resp) = length (questions request)
          \<and> (\<exists>doc. \<forall>i<length (questions request).
                 \<exists>r. generate_content E i (prompt doc (questions request ! i)) = Inr r
                      \<and> answers resp ! i = strip r))
   \<and> (process_file_upload E fn c (Decoded (Items qs2)) w2 = (Inr uresp, w2')
      \<longrightarrow> length (upload_answers uresp) = length qs2
          \<and> (\<exists>doc. \<forall>i<length qs2.
                 \<exists>r. generate_content E i (prompt doc (qs2 ! i)) = Inr r
                      \<and> upload_answers uresp ! i = strip r))"
proof (intro conjI impI)
  assume "process_with_gemini E text (Items qs) w = (Inr ans, w')"
  from process_with_gemini_Inr [OF this]
  show "length ans = length qs"
    and "\<forall>i<length qs. \<exists>r. generate_content E i (prompt text (qs ! i)) = Inr r \<and> ans ! i = strip r"
    by simp_all
next
  assume "process_document_url E request w1 = (Inr resp, w1')"
  from process_document_url_Inr [OF this] obtain doc wa wb where
    "process_with_gemini E doc (Items (questions request)) wa = (Inr (answers resp), wb)"
    by blast
  from process_with_gemini_Inr [OF this]
  show "length (answers resp) = length (questions request)"
    and "\<exists>doc. \<forall>i<length (questions request).
                 \<exists>r. generate_content E i (prompt doc (questions request ! i)) = Inr r
                      \<and> answers resp ! i = strip r"
    by blast+
next
  assume "process_file_upload E fn c (Decoded (Items qs2)) w2 = (Inr uresp, w2')"
  from process_file_upload_Inr [OF this] obtain doc wa wb where
    "process_with_gemini E doc (Items qs2) wa = (Inr (upload_answers uresp), wb)"
    by auto
  from process_with_gemini_Inr [OF this]
  show "length (upload_answers uresp) = length qs2"
    and "\<exists>doc. \<forall>i<length qs2.
                 \<exists>r. generate_content E i (prompt doc (qs2 ! i)) = Inr r
                      \<and> upload_answers uresp ! i = strip r"
    by blast+
qed

theorem answers_follow_questions_witness:
  "fst (process_with_gemini env_ok policy_text (Items policy_questions) w0)
     = Inr [policy_answer, policy_answer, policy_answer]
   \<and> length [policy_answer, policy_answer, policy_answer] = length policy_questions
   \<and> fst (process_document_url env_ok policy_request w0) = Inr policy_response
   \<and> length (answers policy_response) = length (questions policy_request)
   \<and> fst (process_file_upload env_ok ''Report.PDF'' ''%PDF-policy''
             (Decoded (Items policy_questions)) w0) = Inr policy_upload_response
   \<and> length (upload_answers policy_upload_response) = length policy_questions"
proof -
  let ?g = "process_with_gemini env_ok policy_text (Items policy_questions) w0"
  let ?u = "process_document_url env_ok policy_request w0"
  let ?f = "process_file_upload env_ok ''Report.PDF'' ''%PDF-policy'' (Decoded (Items policy_questions)) w0"
  have h1: "fst ?g = Inr [policy_answer, policy_answer, policy_answer]"
    by code_simp
  have h2: "fst ?u = Inr policy_response"
    by code_simp
  have h3: "fst ?f = Inr policy_upload_response"
    by code_simp
  have p1: "?g = (Inr [policy_answer, policy_answer, policy_answer], snd ?g)"
    using h1 by (simp add: prod_eq_iff)
  have p2: "?u = (Inr policy_response, snd ?u)"
    using h2 by (simp add: prod_eq_iff)
  have p3: "?f = (Inr policy_upload_response, snd ?f)"
    using h3 by (simp add: prod_eq_iff)
  note T = answers_follow_questions [of env_ok policy_text policy_questions w0
      "[policy_answer, policy_answer, policy_answer]" "snd ?g"
      policy_request w0 policy_response "snd ?u"
      "''Report.PDF''" "''%PDF-policy''" policy_questions w0 policy_upload_response "snd ?f"]
  from T p1 have c1: "length [policy_answer, policy_answer, policy_answer] = length policy_questions"
    by blast
  from T p2 have c2: "length (answers policy_response) = length (questions policy_request)"
    by blast
  from T p3 have c3: "length (upload_answers policy_upload_response) = length policy_questions"
    by blast
  from h1 h2 h3 c1 c2 c3 show ?thesis
    by blast
qed

text \<open>
  Claim C2. When the call of the model for question \<open>k\<close> raises and the calls before
  it returned, \<open>process_with_gemini\<close> raises a 500 made from that exception after
  exactly \<open>k + 1\<close> calls: the answers computed so far are not part of the result and
  the remaining questions are not attempted. For both handlers: when a call of the model
  that the request made has raised, the request fails with that 500 and no later call
  was made (\<open>fail_fast\<close>).
\<close>

theorem model_failure_fails_request:
  "(k < length qs
      \<and> (\<forall>j<k. \<exists>r. generate_content E j (prompt text (qs ! j)) = Inr r)
      \<and> generate_content E k (prompt text (qs ! k)) = Inl e
    \<longrightarrow> process_with_gemini E text (Items qs) w
          = (Inl (HTTPException 500 (''Error processing with AI: '' @ e)),
             w\<lparr>trace := trace w @ map (\<lambda>j. Generate j (prompt text (qs ! j))) [0..<Suc k]\<rparr>))
   \<and> (process_document_url E request w1 = (r1, w1') \<longrightarrow> fail_fast E (new_events w1 w1') r1)
   \<and> (process_file_upload E fn c qj w2 = (r2, w2') \<longrightarrow> fail_fast E (new_events w2 w2') r2)"
  using process_with_gemini_first_failure [of k qs E "text" e w]
    process_document_url_fail_fast [of E request w1 r1 w1']
    process_file_upload_fail_fast [of E fn c qj w2 r2 w2']
  by blast

theorem model_failure_fails_request_witness:
  "1 < length policy_questions
   \<and> generate_content env_quota 1 (prompt policy_text (policy_questions ! 1)) = Inl ''429 quota exceeded''
   \<and> fst (process_with_gemini env_quota policy_text (Items policy_questions) w0) = Inl quota_failure
   \<and> trace (snd (process_with_gemini env_quota policy_text (Items policy_questions) w0))
       = [Generate 0 (prompt policy_text (policy_questions ! 0)),
          Generate 1 (prompt policy_text (policy_questions ! 1))]
   \<and> Generate 1 (prompt policy_text (policy_questions ! 1))
       \<in> set (new_events w0 (snd (process_document_url env_quota policy_request w0)))
   \<and> fst (process_document_url env_quota policy_request w0) = Inl quota_failure
   \<and> Generate 2 (prompt policy_text (policy_questions ! 2))
       \<notin> set (new_events w0 (snd (process_document_url env_quota policy_request w0)))
   \<and> Generate 1 (prompt policy_text (policy_questions ! 1))
       \<in> set (new_events w0 (snd (process_file_upload env_quota ''Report.PDF'' ''%PDF-policy''
                                     (Decoded (Items policy_questions)) w0)))
   \<and> fst (process_file_upload env_quota ''Report.PDF'' ''%PDF-policy''
             (Decoded (Items policy_questions)) w0) = Inl quota_failure"
proof -
  let ?g = "process_with_gemini env_quota policy_text (Items policy_questions) w0"
  let ?u = "process_document_url env_quota policy_request w0"
  let ?f = "process_file_upload env_quota ''Report.PDF'' ''%PDF-policy'' (Decoded (Items policy_questions)) w0"
  let ?p1 = "prompt policy_text (policy_questions ! 1)"
  have k: "1 < length policy_questions"
    by (simp add: policy_questions_def)
  have ok: "\<forall>j<1. \<exists>r. generate_content env_quota j (prompt policy_text (policy_questions ! j)) = Inr r"
    by (simp add: env_quota_def)
  have bad: "generate_content env_quota 1 ?p1 = Inl ''429 quota exceeded''"
    by (simp add: env_quota_def)
  have mu: "Generate 1 ?p1 \<in> set (new_events w0 (snd ?u))"
    by code_simp
  have mf: "Generate 1 ?p1 \<in> set (new_events w0 (snd ?f))"
    by code_simp
  note T = model_failure_fails_request [of 1 policy_questions env_quota policy_text
      "''429 quota exceeded''" w0 policy_request w0 "fst ?u" "snd ?u"
      "''Report.PDF''" "''%PDF-policy''" "Decoded (Items policy_questions)" w0 "fst ?f" "snd ?f"]
  from T k ok bad have g: "?g = (Inl quota_failure,
      w0\<lparr>trace := trace w0 @ map (\<lambda>j. Generate j (prompt policy_text (policy_questions ! j))) [0..<Suc 1]\<rparr>)"
    by (simp add: quota_failure_def)
  from T have fu: "fail_fast env_quota (new_events w0 (snd ?u)) (fst ?u)"
    by simp
  from T have ff: "fail_fast env_quota (new_events w0 (snd ?f)) (fst ?f)"
    by simp
  from fu mu bad have ru: "fst ?u = Inl quota_failure"
    and lu: "\<forall>j p'. Generate j p' \<in> set (new_events w0 (snd ?u)) \<longrightarrow> j \<le> 1"
    unfolding fail_fast_def quota_failure_def by auto
  from ff mf bad have rf: "fst ?f = Inl quota_failure"
    unfolding fail_fast_def quota_failure_def by auto
  from lu have nu: "Generate 2 (prompt policy_text (policy_questions ! 2)) \<notin> set (new_events w0 (snd ?u))"
    by fastforce
  have g1: "fst ?g = Inl quota_failure"
    using g by simp
  have g2: "trace (snd ?g) = [Generate 0 (prompt policy_text (policy_questions ! 0)), Generate 1 ?p1]"
    using g by (simp add: w0_def)
  from k bad g1 g2 mu ru nu mf rf show ?thesis
    by blast
qed

text \<open>
  Claim C3, as the code has it. The upload handler tests the extension before it does
  anything else with the file: an extension outside \<open>.pdf\<close>, \<open>.doc\<close>, \<open>.docx\<close> is
  answered with a 400 and the world is unchanged (no temporary file, no parser call).
  The URL handler has no such test: whatever was downloaded is stored under a name that
  ends in \<open>.pdf\<close> and, as soon as it has been written there, opened by the PDF parser;
  the parser is not called only when writing the temporary file raised.
\<close>

theorem format_gate_on_upload_only:
  "(lower (snd (splitext fn)) \<notin> set allowed_extensions
      \<longrightarrow> process_file_upload E fn c (Decoded qv) w
          = (Inl (HTTPException 400 (''Unsupported file type: '' @ lower (snd (splitext fn)))), w))
   \<and> (http_get E (documents request) = Inr content
        \<and> process_document_url E request w1 = (r, w1')
      \<longrightarrow> (PdfOpen (tmp_stem E @ ''.pdf'') \<in> set (new_events w1 w1')
           \<longleftrightarrow> tmp_write E (tmp_stem E @ ''.pdf'') content = None))"
proof (intro conjI impI)
  assume "lower (snd (splitext fn)) \<notin> set allowed_extensions"
  then show "process_file_upload E fn c (Decoded qv) w
          = (Inl (HTTPException 400 (''Unsupported file type: '' @ lower (snd (splitext fn)))), w)"
    by (rule process_file_upload_rejected)
next
  assume a: "http_get E (documents request) = Inr content
        \<and> process_document_url E request w1 = (r, w1')"
  then have c: "http_get E (documents request) = Inr content"
    and run: "process_document_url E request w1 = (r, w1')"
    by simp_all
  let ?n = "tmp_stem E @ ''.pdf''"
  show "PdfOpen ?n \<in> set (new_events w1 w1') \<longleftrightarrow> tmp_write E ?n content = None"
  proof (cases "tmp_write E ?n content")
    case None
    from process_document_url_downloaded [OF c None run] obtain g where
      t: "trace w1' = trace w1 @ [HttpGet (documents request), TempCreate ?n, PdfOpen ?n]
                        @ g @ [Unlink ?n]"
      by blast
    from new_events_append [OF t] None show ?thesis
      by simp
  next
    case (Some e)
    from process_document_url_write_failed [OF c Some, of w1] run
    have t: "trace w1' = trace w1 @ [HttpGet (documents request), TempCreate ?n]"
      by auto
    from new_events_append [OF t] Some show ?thesis
      by simp
  qed
qed

theorem format_gate_on_upload_only_witness:
  "lower (snd (splitext ''setup.exe'')) \<notin> set allowed_extensions
   \<and> process_file_upload env_ok ''setup.exe'' ''MZ-setup'' (Decoded (Items policy_questions)) w0
       = (Inl (HTTPException 400 ''Unsupported file type: .exe''), w0)
   \<and> http_get env_ok (documents \<lparr>documents = ''https://example.org/setup.exe'', questions = policy_questions\<rparr>)
       = Inr ''MZ-setup''
   \<and> tmp_write env_ok ''/tmp/tmpk3x9.pdf'' ''MZ-setup'' = None
   \<and> PdfOpen ''/tmp/tmpk3x9.pdf''
       \<in> set (new_events w0 (snd (process_document_url env_ok
              \<lparr>documents = ''https://example.org/setup.exe'', questions = policy_questions\<rparr> w0)))"
proof -
  let ?req = "\<lparr>documents = ''https://example.org/setup.exe'', questions = policy_questions\<rparr>"
  have x: "lower (snd (splitext ''setup.exe'')) = ''.exe''"
    by code_simp
  have n: "''.exe'' \<notin> set allowed_extensions"
    by (simp add: allowed_extensions_def)
  have h: "http_get env_ok (documents ?req) = Inr ''MZ-setup''"
    by (simp add: env_ok_def)
  have s: "tmp_stem env_ok = ''/tmp/tmpk3x9''"
    by (simp add: env_ok_def)
  have wr: "tmp_write env_ok ''/tmp/tmpk3x9.pdf'' ''MZ-setup'' = None"
    by (simp add: env_ok_def)
  show ?thesis
    using format_gate_on_upload_only [of "''setup.exe''" env_ok "''MZ-setup''" "Items policy_questions" w0
        ?req "''MZ-setup''" w0 "fst (process_document_url env_ok ?req w0)"
        "snd (process_document_url env_ok ?req w0)"]
      x n h s wr
    by simp
qed

text \<open>
  The claim as it was stated, for every request by URL or upload, fails on the URL
  path: a download from a URL that ends in \<open>.exe\<close> is handed to the PDF parser, and the
  request ends with the 500 of the parser, not with a 400.
\<close>

theorem url_format_gate_counterexample:
  "snd (splitext ''https://example.org/setup.exe'') = ''.exe''
   \<and> ''.exe'' \<notin> set allowed_extensions
   \<and> PdfOpen ''/tmp/tmpk3x9.pdf''
       \<in> set (trace (snd (hackrx_run env_ok ''https://example.org/setup.exe'' [''What is this?''] w0)))
   \<and> fst (hackrx_run env_ok ''https://example.org/setup.exe'' [''What is this?''] w0)
       = Inl (HTTPException 500 ''Error processing PDF: EOF marker not found'')"
  by code_simp

text \<open>
  Claim C4, as the code has it. On the URL route a failed download is a 400, and so is
  a failure to write the downloaded bytes to the temporary file; a PDF parser that
  fails, on the file or on one of its pages, is a 500 with the detail
  \<open>Error processing PDF\<close>; a call of the model that raises is a 500 with the detail
  \<open>Error processing with AI\<close>. On the upload route a \<open>JSONDecodeError\<close> of the question
  list is a 400 and any other exception of \<open>json.loads\<close> a 500; after the list has been
  decoded an extension outside the allowed ones is a 400; a failure to write the
  temporary file is a 500; a failing PDF or DOCX parser is a 500 with the detail
  \<open>Error processing PDF\<close> or \<open>Error processing DOCX\<close>; a call of the model that raises
  is a 500. An empty question list on the URL route is rejected by the validation of
  the body, with status 422.
\<close>

theorem failure_status_classes:
  "(http_get E (documents request) = Inl e
      \<longrightarrow> fst (process_document_url E request w)
          = Inl (HTTPException 400 (''Error downloading document: '' @ e)))
   \<and> (http_get E (documents request) = Inr c \<and> tmp_write E (tmp_stem E @ ''.pdf'') c = Some e
      \<longrightarrow> fst (process_document_url E request w)
          = Inl (HTTPException 400 (''Error downloading document: '' @ e)))
   \<and> (http_get E (documents request) = Inr c \<and> tmp_write E (tmp_stem E @ ''.pdf'') c = None
        \<and> (pdf_reader E c = Inl e \<or> pdf_reader E c = Inr (map Inr ts @ Inl e # rest))
      \<longrightarrow> fst (process_document_url E request w)
          = Inl (HTTPException 500 (''Error processing PDF: '' @ e)))
   \<and> (process_document_url E request w = (r, w')
        \<and> Generate k p \<in> set (new_events w w') \<and> generate_content E k p = Inl e
      \<longrightarrow> r = Inl (HTTPException 500 (''Error processing with AI: '' @ e)))
   \<and> fst (process_file_upload E fn c JSONDecodeError w)
       = Inl (HTTPException 400 ''Invalid JSON format for questions'')
   \<and> fst (process_file_upload E fn c (Raised e) w)
       = Inl (HTTPException 500 (''Internal server error: '' @ e))
   \<and> (lower (snd (splitext fn)) \<notin> set allowed_extensions
      \<longrightarrow> fst (process_file_upload E fn c (Decoded qv) w)
          = Inl (HTTPException 400 (''Unsupported file type: '' @ lower (snd (splitext fn)))))
   \<and> (lower (snd (splitext fn)) \<in> set allowed_extensions
        \<and> tmp_write E (tmp_stem E @ lower (snd (splitext fn))) c = Some e
      \<longrightarrow> fst (process_file_upload E fn c (Decoded qv) w)
          = Inl (HTTPException 500 (''Internal server error: '' @ e)))
   \<and> (lower (snd (splitext fn)) = ''.pdf'' \<and> tmp_write E (tmp_stem E @ ''.pdf'') c = None
        \<and> (pdf_reader E c = Inl e \<or> pdf_reader E c = Inr (map Inr ts @ Inl e # rest))
      \<longrightarrow> fst (process_file_upload E fn c (Decoded qv) w)
          = Inl (HTTPException 500 (''Error processing PDF: '' @ e)))
   \<and> ((lower (snd (splitext fn)) = ''.doc'' \<or> lower (snd (splitext fn)) = ''.docx'')
        \<and> tmp_write E (tmp_stem E @ lower (snd (splitext fn))) c = None
        \<and> docx_document E c = Inl e
      \<longrightarrow> fst (process_file_upload E fn c (Decoded qv) w)
          = Inl (HTTPException 500 (''Error processing DOCX: '' @ e)))
   \<and> (process_file_upload E fn c qj w = (r2, w2')
        \<and> Generate k p \<in> set (new_events w w2') \<and> generate_content E k p = Inl e
      \<longrightarrow> r2 = Inl (HTTPException 500 (''Error processing with AI: '' @ e)))
   \<and> fst (hackrx_run E d [] w) = Inl RequestValidationError
   \<and> status_of RequestValidationError = 422"
proof (intro conjI impI)
  assume "http_get E (documents request) = Inl e"
  then show "fst (process_document_url E request w)
          = Inl (HTTPException 400 (''Error downloading document: '' @ e))"
    by (simp add: process_document_url_download_failed)
next
  assume "http_get E (documents request) = Inr c \<and> tmp_write E (tmp_stem E @ ''.pdf'') c = Some e"
  then have "http_get E (documents request) = Inr c" "tmp_write E (tmp_stem E @ ''.pdf'') c = Some e"
    by simp_all
  from process_document_url_write_failed [OF this, of w]
  show "fst (process_document_url E request w)
          = Inl (HTTPException 400 (''Error downloading document: '' @ e))"
    by auto
next
  assume "http_get E (documents request) = Inr c \<and> tmp_write E (tmp_stem E @ ''.pdf'') c = None
        \<and> (pdf_reader E c = Inl e \<or> pdf_reader E c = Inr (map Inr ts @ Inl e # rest))"
  then show "fst (process_document_url E request w)
          = Inl (HTTPException 500 (''Error processing PDF: '' @ e))"
    by (intro process_document_url_parser_failure [of E request c]) auto
next
  assume a: "process_document_url E request w = (r, w')
        \<and> Generate k p \<in> set (new_events w w') \<and> generate_content E k p = Inl e"
  then have "process_document_url E request w = (r, w')"
    by simp
  then have "fail_fast E (new_events w w') r"
    by (rule process_document_url_fail_fast)
  with a show "r = Inl (HTTPException 500 (''Error processing with AI: '' @ e))"
    unfolding fail_fast_def by blast
next
  show "fst (process_file_upload E fn c JSONDecodeError w)
       = Inl (HTTPException 400 ''Invalid JSON format for questions'')"
    by (simp add: process_file_upload_malformed)
next
  show "fst (process_file_upload E fn c (Raised e) w)
       = Inl (HTTPException 500 (''Internal server error: '' @ e))"
    by (simp add: process_file_upload_raised)
next
  assume "lower (snd (splitext fn)) \<notin> set allowed_extensions"
  then show "fst (process_file_upload E fn c (Decoded qv) w)
          = Inl (HTTPException 400 (''Unsupported file type: '' @ lower (snd (splitext fn))))"
    by (simp add: process_file_upload_rejected)
next
  assume "lower (snd (splitext fn)) \<in> set allowed_extensions
        \<and> tmp_write E (tmp_stem E @ lower (snd (splitext fn))) c = Some e"
  then have "lower (snd (splitext fn)) \<in> set allowed_extensions"
    "tmp_write E (tmp_stem E @ lower (snd (splitext fn))) c = Some e"
    by simp_all
  from process_file_upload_write_failed [OF this, of qv w]
  show "fst (process_file_upload E fn c (Decoded qv) w)
          = Inl (HTTPException 500 (''Internal server error: '' @ e))"
    by auto
next
  assume "lower (snd (splitext fn)) = ''.pdf'' \<and> tmp_write E (tmp_stem E @ ''.pdf'') c = None
        \<and> (pdf_reader E c = Inl e \<or> pdf_reader E c = Inr (map Inr ts @ Inl e # rest))"
  then show "fst (process_file_upload E fn c (Decoded qv) w)
          = Inl (HTTPException 500 (''Error processing PDF: '' @ e))"
    by (intro process_file_upload_pdf_failure [of fn E c]) auto
next
  assume "(lower (snd (splitext fn)) = ''.doc'' \<or> lower (snd (splitext fn)) = ''.docx'')
        \<and> tmp_write E (tmp_stem E @ lower (snd (splitext fn))) c = None
        \<and> docx_document E c = Inl e"
  then show "fst (process_file_upload E fn c (Decoded qv) w)
          = Inl (HTTPException 500 (''Error processing DOCX: '' @ e))"
    by (intro process_file_upload_docx_failure [of fn E c]) auto
next
  assume a: "process_file_upload E fn c qj w = (r2, w2')
        \<and> Generate k p \<in> set (new_events w w2') \<and> generate_content E k p = Inl e"
  then have "process_file_upload E fn c qj w = (r2, w2')"
    by simp
  then have "fail_fast E (new_events w w2') r2"
    by (rule process_file_upload_fail_fast)
  with a show "r2 = Inl (HTTPException 500 (''Error processing with AI: '' @ e))"
    unfolding fail_fast_def by blast
next
  show "fst (hackrx_run E d [] w) = Inl RequestValidationError"
    by (simp add: hackrx_run_empty_questions)
next
  show "status_of RequestValidationError = 422"
    by simp
qed

theorem failure_status_classes_witness:
  "fst (process_document_url env_ok
          \<lparr>documents = ''https://example.org/missing.pdf'', questions = policy_questions\<rparr> w0)
     = Inl (HTTPException 400 ''Error downloading document: 404 Client Error: Not Found'')
   \<and> fst (process_document_url env_disk_full policy_request w0)
     = Inl (HTTPException 400 ''Error downloading document: [Errno 28] No space left on device'')
   \<and> fst (process_document_url env_ok
          \<lparr>documents = ''https://example.org/setup.exe'', questions = policy_questions\<rparr> w0)
     = Inl (HTTPException 500 ''Error processing PDF: EOF marker not found'')
   \<and> fst (process_document_url env_ok
          \<lparr>documents = ''https://example.org/scan.pdf'', questions = policy_questions\<rparr> w0)
     = Inl (HTTPException 500 ''Error processing PDF: could not decode page 2'')
   \<and> fst (process_document_url env_quota policy_request w0) = Inl quota_failure
   \<and> fst (process_file_upload env_ok ''setup.exe'' ''MZ-setup'' (Decoded (Items policy_questions)) w0)
     = Inl (HTTPException 400 ''Unsupported file type: .exe'')
   \<and> fst (process_file_upload env_disk_full ''Report.PDF'' ''%PDF-policy''
            (Decoded (Items policy_questions)) w0)
     = Inl (HTTPException 500 ''Internal server error: [Errno 28] No space left on device'')
   \<and> fst (process_file_upload env_ok ''Report.PDF'' ''MZ-setup'' (Decoded (Items policy_questions)) w0)
     = Inl (HTTPException 500 ''Error processing PDF: EOF marker not found'')
   \<and> fst (process_file_upload env_ok ''Report.PDF'' ''%PDF-scan'' (Decoded (Items policy_questions)) w0)
     = Inl (HTTPException 500 ''Error processing PDF: could not decode page 2'')
   \<and> fst (process_file_upload env_ok ''Scan.DocX'' ''not a docx'' (Decoded (Items policy_questions)) w0)
     = Inl (HTTPException 500 ''Error processing DOCX: File is not a zip file'')
   \<and> fst (process_file_upload env_quota ''Report.PDF'' ''%PDF-policy''
            (Decoded (Items policy_questions)) w0) = Inl quota_failure"
proof -
  let ?missing = "\<lparr>documents = ''https://example.org/missing.pdf'', questions = policy_questions\<rparr>"
  let ?exe = "\<lparr>documents = ''https://example.org/setup.exe'', questions = policy_questions\<rparr>"
  let ?scan = "\<lparr>documents = ''https://example.org/scan.pdf'', questions = policy_questions\<rparr>"
  let ?full = "''[Errno 28] No space left on device''"
  let ?p1 = "prompt policy_text (policy_questions ! 1)"
  let ?uq = "process_document_url env_quota policy_request w0"
  let ?fq = "process_file_upload env_quota ''Report.PDF'' ''%PDF-policy'' (Decoded (Items policy_questions)) w0"
  have pdf: "lower (snd (splitext ''Report.PDF'')) = ''.pdf''"
    by code_simp
  have docx: "lower (snd (splitext ''Scan.DocX'')) = ''.docx''"
    by code_simp
  have exe: "lower (snd (splitext ''setup.exe'')) = ''.exe''"
    by code_simp
  have c1: "fst (process_document_url env_ok ?missing w0)
      = Inl (HTTPException 400 ''Error downloading document: 404 Client Error: Not Found'')"
    using failure_status_classes [where E = env_ok and request = ?missing
        and e = "''404 Client Error: Not Found''" and w = w0]
    by (simp add: env_ok_def)
  have c2: "fst (process_document_url env_disk_full policy_request w0)
      = Inl (HTTPException 400 ''Error downloading document: [Errno 28] No space left on device'')"
    using failure_status_classes [where E = env_disk_full and request = policy_request
        and c = "''%PDF-policy''" and e = ?full and w = w0]
    by (simp add: env_disk_full_def env_ok_def policy_request_def)
  have c3: "fst (process_document_url env_ok ?exe w0)
      = Inl (HTTPException 500 ''Error processing PDF: EOF marker not found'')"
    using failure_status_classes [where E = env_ok and request = ?exe
        and c = "''MZ-setup''" and e = "''EOF marker not found''" and w = w0]
    by (simp add: env_ok_def)
  have c4: "fst (process_document_url env_ok ?scan w0)
      = Inl (HTTPException 500 ''Error processing PDF: could not decode page 2'')"
    using failure_status_classes [where E = env_ok and request = ?scan
        and c = "''%PDF-scan''" and e = "''could not decode page 2''" and w = w0
        and ts = "[''Page one.'']" and rest = "[Inr ''Page three.'']"]
    by (simp add: env_ok_def)
  have bad: "generate_content env_quota 1 ?p1 = Inl ''429 quota exceeded''"
    by (simp add: env_quota_def)
  have mu: "Generate 1 ?p1 \<in> set (new_events w0 (snd ?uq))"
    by code_simp
  have mf: "Generate 1 ?p1 \<in> set (new_events w0 (snd ?fq))"
    by code_simp
  have c5: "fst ?uq = Inl quota_failure"
    using failure_status_classes [where E = env_quota and request = policy_request and w = w0
        and r = "fst ?uq" and w' = "snd ?uq" and k = 1 and p = ?p1
        and e = "''429 quota exceeded''"] bad mu
    by (simp add: quota_failure_def)
  have c6: "fst (process_file_upload env_ok ''setup.exe'' ''MZ-setup'' (Decoded (Items policy_questions)) w0)
      = Inl (HTTPException 400 ''Unsupported file type: .exe'')"
    using failure_status_classes [where E = env_ok and fn = "''setup.exe''" and c = "''MZ-setup''"
        and qv = "Items policy_questions" and w = w0] exe
    by (simp add: allowed_extensions_def)
  have c7: "fst (process_file_upload env_disk_full ''Report.PDF'' ''%PDF-policy''
                  (Decoded (Items policy_questions)) w0)
      = Inl (HTTPException 500 ''Internal server error: [Errno 28] No space left on device'')"
    using failure_status_classes [where E = env_disk_full and fn = "''Report.PDF''"
        and c = "''%PDF-policy''" and qv = "Items policy_questions" and w = w0 and e = ?full] pdf
    by (simp add: allowed_extensions_def env_disk_full_def)
  have c8: "fst (process_file_upload env_ok ''Report.PDF'' ''MZ-setup'' (Decoded (Items policy_questions)) w0)
      = Inl (HTTPException 500 ''Error processing PDF: EOF marker not found'')"
    using failure_status_classes [where E = env_ok and fn = "''Report.PDF''" and c = "''MZ-setup''"
        and qv = "Items policy_questions" and w = w0 and e = "''EOF marker not found''"] pdf
    by (simp add: env_ok_def)
  have c9: "fst (process_file_upload env_ok ''Report.PDF'' ''%PDF-scan'' (Decoded (Items policy_questions)) w0)
      = Inl (HTTPException 500 ''Error processing PDF: could not decode page 2'')"
    using failure_status_classes [where E = env_ok and fn = "''Report.PDF''" and c = "''%PDF-scan''"
        and qv = "Items policy_questions" and w = w0 and e = "''could not decode page 2''"
        and ts = "[''Page one.'']" and rest = "[Inr ''Page three.'']"] pdf
    by (simp add: env_ok_def)
  have c10: "fst (process_file_upload env_ok ''Scan.DocX'' ''not a docx'' (Decoded (Items policy_questions)) w0)
      = Inl (HTTPException 500 ''Error processing DOCX: File is not a zip file'')"
    using failure_status_classes [where E = env_ok and fn = "''Scan.DocX''" and c = "''not a docx''"
        and qv = "Items policy_questions" and w = w0 and e = "''File is not a zip file''"] docx
    by (simp add: env_ok_def)
  have c11: "fst ?fq = Inl quota_failure"
    using failure_status_classes [where E = env_quota and fn = "''Report.PDF''" and c = "''%PDF-policy''"
        and qj = "Decoded (Items policy_questions)" and w = w0
        and ?r2.0 = "fst ?fq" and ?w2'.0 = "snd ?fq" and k = 1 and p = ?p1
        and e = "''429 quota exceeded''"] bad mf
    by (simp add: quota_failure_def)
  from c1 c2 c3 c4 c5 c6 c7 c8 c9 c10 c11 show ?thesis
    by blast
qed

text \<open>
  The claim as it was stated puts a parser failure on a recognised format in the 400
  class: an uploaded \<open>.pdf\<close> that the PDF parser rejects is answered with a 500.
\<close>

theorem parser_failure_status_counterexample:
  "pdf_reader env_ok ''MZ-setup'' = Inl ''EOF marker not found''
   \<and> lower (snd (splitext ''policy.pdf'')) \<in> set allowed_extensions
   \<and> fst (process_file_upload env_ok ''policy.pdf'' ''MZ-setup'' (Decoded (Items policy_questions)) w0)
       = Inl (HTTPException 500 ''Error processing PDF: EOF marker not found'')
   \<and> status_of (HTTPException 500 ''Error processing PDF: EOF marker not found'') \<noteq> 400"
  by code_simp

text \<open>
  Claim C6, on a full disk. In both handlers the block that creates and writes the
  temporary file (\<open>delete=False\<close>) stands before the \<open>try\<close> whose \<open>finally\<close> removes
  the file. When the write raises, the request ends with a 400 on the URL route and
  with a 500 on the upload route, no \<open>Unlink\<close> is logged and the file that the request
  created still exists.
\<close>

theorem temporary_file_left_after_failed_write:
  "http_get env_disk_full (documents policy_request) = Inr ''%PDF-policy''
   \<and> tmp_write env_disk_full ''/tmp/tmpk3x9.pdf'' ''%PDF-policy''
       = Some ''[Errno 28] No space left on device''
   \<and> files w0 ''/tmp/tmpk3x9.pdf'' = None
   \<and> fst (process_document_url env_disk_full policy_request w0)
       = Inl (HTTPException 400 ''Error downloading document: [Errno 28] No space left on device'')
   \<and> trace (snd (process_document_url env_disk_full policy_request w0))
       = [HttpGet ''https://example.org/policy.pdf'', TempCreate ''/tmp/tmpk3x9.pdf'']
   \<and> files (snd (process_document_url env_disk_full policy_request w0)) ''/tmp/tmpk3x9.pdf'' \<noteq> None
   \<and> fst (process_file_upload env_disk_full ''Report.PDF'' ''%PDF-policy''
             (Decoded (Items policy_questions)) w0)
       = Inl (HTTPException 500 ''Internal server error: [Errno 28] No space left on device'')
   \<and> trace (snd (process_file_upload env_disk_full ''Report.PDF'' ''%PDF-policy''
                    (Decoded (Items policy_questions)) w0))
       = [TempCreate ''/tmp/tmpk3x9.pdf'']
   \<and> files (snd (process_file_upload env_disk_full ''Report.PDF'' ''%PDF-policy''
                    (Decoded (Items policy_questions)) w0)) ''/tmp/tmpk3x9.pdf'' \<noteq> None"
  by code_simp

text \<open>
  Claim C7, at an upload with the question list \<open>[]\<close>. The upload handler does not
  reject it: the temporary file is written, the PDF parser runs and the request
  succeeds with an empty list of answers. The URL route rejects the same list before
  its handler runs, through \<open>min_items=1\<close> of \<open>QueryRequest\<close>.
\<close>

theorem upload_accepts_empty_question_list:
  "fst (process_file_upload env_ok ''Report.PDF'' ''%PDF-policy'' (Decoded (Items [])) w0)
     = Inr \<lparr>upload_answers = [], upload_total_questions = 0,
            upload_processing_timestamp = ''2025-07-04T09:11:24'', file_size = 11,
            upload_model_info = \<lparr>llm = ''gemini-pro'', text_length = 25\<rparr>,
            filename = ''Report.PDF''\<rparr>
   \<and> trace (snd (process_file_upload env_ok ''Report.PDF'' ''%PDF-policy'' (Decoded (Items [])) w0))
     = [TempCreate ''/tmp/tmpk3x9.pdf'', PdfOpen ''/tmp/tmpk3x9.pdf'', Unlink ''/tmp/tmpk3x9.pdf'']
   \<and> fst (hackrx_run env_ok ''https://example.org/policy.pdf'' [] w0) = Inl RequestValidationError
   \<and> trace (snd (hackrx_run env_ok ''https://example.org/policy.pdf'' [] w0)) = []"
  by code_simp

text \<open>
  Claim C8. The prompt is a function of the budgeted text and the question: it does
  not change when the text is replaced by its first 8000 characters. It holds the
  budgeted text, then the question, then the instruction with the fallback phrase
  \<open>"Information not found in the document."\<close> in double quotes.
\<close>

theorem prompt_template:
  "prompt text question = prompt (budget text 8000) question
   \<and> (\<exists>pre mid post. prompt text question = pre @ budget text 8000 @ mid @ question @ post
         \<and> sublist (QUOTE @ ''Information not found in the document.'' @ QUOTE) post)"
proof
  show "prompt text question = prompt (budget text 8000) question"
    by (simp add: prompt_def budget_take)
next
  let ?pre = "NL @ INDENT @ ''Document Text:'' @ NL @ INDENT"
  let ?mid = "''  # Limit text to avoid token limits'' @ NL @ INDENT @ NL @ INDENT @ ''Question: ''"
  let ?ins = "NL @ INDENT @ NL @ INDENT
      @ ''Please provide a clear, concise answer based on the document content. If the answer is not found in the document, say ''"
  let ?post = "?ins @ (QUOTE @ ''Information not found in the document.'' @ QUOTE) @ NL @ INDENT"
  have "prompt text question = ?pre @ budget text 8000 @ ?mid @ question @ ?post"
    by (simp add: prompt_def FALLBACK_def)
  moreover have "sublist (QUOTE @ ''Information not found in the document.'' @ QUOTE) ?post"
    unfolding sublist_def by blast
  ultimately show "\<exists>pre mid post. prompt text question = pre @ budget text 8000 @ mid @ question @ post
         \<and> sublist (QUOTE @ ''Information not found in the document.'' @ QUOTE) post"
    by blast
qed

text \<open>
  Claim C9. Every answer of a successful request is the result of \<open>strip\<close>: when it
  is not empty, its first and its last character are not white space. This holds for
  \<open>process_with_gemini\<close> and for both handlers.
\<close>

theorem answers_are_stripped:
  "(process_with_gemini E text qv w = (Inr ans, w')
      \<longrightarrow> (\<forall>a \<in> set ans. a \<noteq> [] \<longrightarrow> \<not> isspace (hd a) \<and> \<not> isspace (last a)))
   \<and> (process_document_url E request w1 = (Inr resp, w1')
      \<longrightarrow> (\<forall>a \<in> set (answers resp). a \<noteq> [] \<longrightarrow> \<not> isspace (hd a) \<and> \<not> isspace (last a)))
   \<and> (process_file_upload E fn c qj w2 = (Inr uresp, w2')
      \<longrightarrow> (\<forall>a \<in> set (upload_answers uresp). a \<noteq> [] \<longrightarrow> \<not> isspace (hd a) \<and> \<not> isspace (last a)))"
proof (intro conjI impI)
  assume "process_with_gemini E text qv w = (Inr ans, w')"
  then show "\<forall>a \<in> set ans. a \<noteq> [] \<longrightarrow> \<not> isspace (hd a) \<and> \<not> isspace (last a)"
    by (rule process_with_gemini_stripped)
next
  assume "process_document_url E request w1 = (Inr resp, w1')"
  from process_document_url_Inr [OF this] obtain doc wa wb where
    "process_with_gemini E doc (Items (questions request)) wa = (Inr (answers resp), wb)"
    by blast
  then show "\<forall>a \<in> set (answers resp). a \<noteq> [] \<longrightarrow> \<not> isspace (hd a) \<and> \<not> isspace (last a)"
    by (rule process_with_gemini_stripped)
next
  assume "process_file_upload E fn c qj w2 = (Inr uresp, w2')"
  from process_file_upload_Inr [OF this] obtain qs doc wa wb where
    "process_with_gemini E doc (Items qs) wa = (Inr (upload_answers uresp), wb)"
    by blast
  then show "\<forall>a \<in> set (upload_answers uresp). a \<noteq> [] \<longrightarrow> \<not> isspace (hd a) \<and> \<not> isspace (last a)"
    by (rule process_with_gemini_stripped)
qed

theorem answers_are_stripped_witness:
  "fst (process_with_gemini env_ok policy_text (Items policy_questions) w0)
     = Inr [policy_answer, policy_answer, policy_answer]
   \<and> fst (process_document_url env_ok policy_request w0) = Inr policy_response
   \<and> fst (process_file_upload env_ok ''Report.PDF'' ''%PDF-policy''
             (Decoded (Items policy_questions)) w0) = Inr policy_upload_response
   \<and> generate_content env_ok 0 (prompt policy_text (policy_questions ! 0))
       = Inr ('' '' @ policy_answer @ '' '')
   \<and> policy_answer \<in> set (answers policy_response)
   \<and> policy_answer \<in> set (upload_answers policy_upload_response)
   \<and> policy_answer \<noteq> []
   \<and> \<not> isspace (hd policy_answer) \<and> \<not> isspace (last policy_answer)"
proof -
  let ?g = "process_with_gemini env_ok policy_text (Items policy_questions) w0"
  let ?u = "process_document_url env_ok policy_request w0"
  let ?f = "process_file_upload env_ok ''Report.PDF'' ''%PDF-policy'' (Decoded (Items policy_questions)) w0"
  have h1: "fst ?g = Inr [policy_answer, policy_answer, policy_answer]"
    by code_simp
  have h2: "fst ?u = Inr policy_response"
    by code_simp
  have h3: "fst ?f = Inr policy_upload_response"
    by code_simp
  have p1: "?g = (Inr [policy_answer, policy_answer, policy_answer], snd ?g)"
    using h1 by (simp add: prod_eq_iff)
  have p2: "?u = (Inr policy_response, snd ?u)"
    using h2 by (simp add: prod_eq_iff)
  have p3: "?f = (Inr policy_upload_response, snd ?f)"
    using h3 by (simp add: prod_eq_iff)
  have raw: "generate_content env_ok 0 (prompt policy_text (policy_questions ! 0))
       = Inr ('' '' @ policy_answer @ '' '')"
    by (simp add: env_ok_def policy_answer_def)
  have m1: "policy_answer \<in> set [policy_answer, policy_answer, policy_answer]"
    by simp
  have m2: "policy_answer \<in> set (answers policy_response)"
    by (simp add: policy_response_def)
  have m3: "policy_answer \<in> set (upload_answers policy_upload_response)"
    by (simp add: policy_upload_response_def)
  have ne: "policy_answer \<noteq> []"
    by (simp add: policy_answer_def)
  note T = answers_are_stripped [of env_ok policy_text "Items policy_questions" w0
      "[policy_answer, policy_answer, policy_answer]" "snd ?g"
      policy_request w0 policy_response "snd ?u"
      "''Report.PDF''" "''%PDF-policy''" "Decoded (Items policy_questions)" w0
      policy_upload_response "snd ?f"]
  from T p1 m1 ne have c1: "\<not> isspace (hd policy_answer) \<and> \<not> isspace (last policy_answer)"
    by blast
  from T p2 m2 ne have c2: "\<not> isspace (hd policy_answer) \<and> \<not> isspace (last policy_answer)"
    by blast
  from T p3 m3 ne have c3: "\<not> isspace (hd policy_answer) \<and> \<not> isspace (last policy_answer)"
    by blast
  from h1 h2 h3 raw m2 m3 ne c1 c2 c3 show ?thesis
    by blast
qed

text \<open>
  Claim C10. The extension of an uploaded file is put in lower case before it is
  compared: when it differs from one of \<open>.pdf\<close>, \<open>.doc\<close>, \<open>.docx\<close> in letter case only,
  its lower case is that extension, the upload is not answered with a 400 and the
  temporary file is created under the lower-case extension; once the file has been
  written, the parser of that extension is called.
\<close>

theorem extension_gate_ignores_case:
  "a \<in> set allowed_extensions
     \<and> differs_only_in_case (snd (splitext fn)) a
     \<and> process_file_upload E fn c (Decoded qv) w = (r, w')
   \<longrightarrow> lower (snd (splitext fn)) = a
       \<and> (\<forall>d. r \<noteq> Inl (HTTPException 400 d))
       \<and> prefix [TempCreate (tmp_stem E @ a)] (new_events w w')
       \<and> (tmp_write E (tmp_stem E @ a) c = None
            \<longrightarrow> prefix [TempCreate (tmp_stem E @ a),
                         (if a = ''.pdf'' then PdfOpen (tmp_stem E @ a)
                          else DocxOpen (tmp_stem E @ a))]
                 (new_events w w'))"
proof
  assume h: "a \<in> set allowed_extensions
     \<and> differs_only_in_case (snd (splitext fn)) a
     \<and> process_file_upload E fn c (Decoded qv) w = (r, w')"
  let ?n = "tmp_stem E @ a"
  let ?o = "if a = ''.pdf'' then PdfOpen ?n else DocxOpen ?n"
  from h have a: "a \<in> set allowed_extensions"
    and v: "differs_only_in_case (snd (splitext fn)) a"
    and run: "process_file_upload E fn c (Decoded qv) w = (r, w')"
    by simp_all
  have l: "lower (snd (splitext fn)) = a"
    by (rule lower_differs_only_in_case [OF v lower_allowed_extensions [OF a]])
  with a have ext: "lower (snd (splitext fn)) \<in> set allowed_extensions"
    by simp
  have "(\<forall>d. r \<noteq> Inl (HTTPException 400 d))
       \<and> prefix [TempCreate ?n] (new_events w w')
       \<and> (tmp_write E ?n c = None \<longrightarrow> prefix [TempCreate ?n, ?o] (new_events w w'))"
  proof (cases "tmp_write E ?n c")
    case (Some e)
    from process_file_upload_write_failed [OF ext, of E c e qv w] Some l run
    have "r = Inl (HTTPException 500 (''Internal server error: '' @ e))"
      and "trace w' = trace w @ [TempCreate ?n]"
      by auto
    with new_events_append [of w' w "[TempCreate ?n]"] Some show ?thesis
      by simp
  next
    case None
    with l have wr: "tmp_write E (tmp_stem E @ lower (snd (splitext fn))) c = None"
      by simp
    from process_file_upload_accepted [OF ext wr run] l obtain g where
      t: "trace w' = trace w @ [TempCreate ?n, ?o] @ g @ [Unlink ?n]"
      and s: "\<forall>f. r = Inl f \<longrightarrow> status_of f = 500"
      by auto
    have "\<forall>d. r \<noteq> Inl (HTTPException 400 d)"
      using s by auto
    with new_events_append [OF t] show ?thesis
      by simp
  qed
  with l show "lower (snd (splitext fn)) = a
       \<and> (\<forall>d. r \<noteq> Inl (HTTPException 400 d))
       \<and> prefix [TempCreate ?n] (new_events w w')
       \<and> (tmp_write E ?n c = None \<longrightarrow> prefix [TempCreate ?n, ?o] (new_events w w'))"
    by simp
qed

theorem extension_gate_ignores_case_witness:
  "snd (splitext ''Scan.DocX'') = ''.DocX''
   \<and> ''.docx'' \<in> set allowed_extensions
   \<and> differs_only_in_case ''.DocX'' ''.docx''
   \<and> tmp_write env_ok ''/tmp/tmpk3x9.docx'' ''PK-policy'' = None
   \<and> lower ''.DocX'' = ''.docx''
   \<and> fst (process_file_upload env_ok ''Scan.DocX'' ''PK-policy'' (Decoded (Items policy_questions)) w0)
       \<noteq> Inl (HTTPException 400 ''Unsupported file type: .docx'')
   \<and> prefix [TempCreate ''/tmp/tmpk3x9.docx'', DocxOpen ''/tmp/tmpk3x9.docx'']
        (new_events w0
           (snd (process_file_upload env_ok ''Scan.DocX'' ''PK-policy'' (Decoded (Items policy_questions)) w0)))"
proof -
  let ?run = "process_file_upload env_ok ''Scan.DocX'' ''PK-policy'' (Decoded (Items policy_questions)) w0"
  have x: "snd (splitext ''Scan.DocX'') = ''.DocX''"
    by code_simp
  have v: "differs_only_in_case ''.DocX'' ''.docx''"
    by code_simp
  have n: "''.docx'' \<in> set allowed_extensions"
    by (simp add: allowed_extensions_def)
  have s: "tmp_stem env_ok = ''/tmp/tmpk3x9''"
    by (simp add: env_ok_def)
  have wr: "tmp_write env_ok ''/tmp/tmpk3x9.docx'' ''PK-policy'' = None"
    by (simp add: env_ok_def)
  show ?thesis
    using extension_gate_ignores_case [of "''.docx''" "''Scan.DocX''" env_ok "''PK-policy''"
        "Items policy_questions" w0 "fst ?run" "snd ?run"] x v n s wr
    by simp
qed

end
